theory Spec2Isabelle
  imports Main "HOL-Library.AList"
begin

section \<open>RDF terms, Python values, errors\<close>

text \<open>
  The terms of an RDF graph as rdflib has them. A \<open>Literal\<close> carries its lexical form,
  which is what \<^verbatim>\<open>str(lit)\<close> returns, and its Python value \<^verbatim>\<open>lit.value\<close>: a
  string for a plain or \<open>xsd:string\<close> literal, a number or a boolean for a typed one, and
  \<open>None\<close> (\<open>NoValue\<close>) when rdflib has no conversion for the datatype. \<^verbatim>\<open>str\<close> of a
  \<open>URIRef\<close> or a \<open>BNode\<close> is its identifier.
\<close>

datatype litval = NoValue | StrValue string | IntValue int | BoolValue bool

datatype node = URIRef string | BNode string | Literal string litval

fun is_Literal :: "node \<Rightarrow> bool" where
  "is_Literal (Literal s x) = True"
| "is_Literal n = False"

text \<open>\<^verbatim>\<open>isinstance(m.value, str)\<close>, for a Literal \<open>m\<close>.\<close>

fun value_is_str :: "node \<Rightarrow> bool" where
  "value_is_str (Literal s (StrValue x)) = True"
| "value_is_str n = False"

fun str_node :: "node \<Rightarrow> string" where
  "str_node (URIRef s) = s"
| "str_node (BNode s) = s"
| "str_node (Literal s x) = s"

text \<open>
  The truth value of a term. \<open>URIRef\<close> and \<open>BNode\<close> are strings, false when empty.
  \<^verbatim>\<open>Literal.__bool__\<close> is the truth value of the Python value, and that of the
  lexical form when the value is \<open>None\<close>.
\<close>

fun node_bool :: "node \<Rightarrow> bool" where
  "node_bool (URIRef s) = (s \<noteq> [])"
| "node_bool (BNode s) = (s \<noteq> [])"
| "node_bool (Literal s NoValue) = (s \<noteq> [])"
| "node_bool (Literal s (StrValue x)) = (x \<noteq> [])"
| "node_bool (Literal s (IntValue i)) = (i \<noteq> 0)"
| "node_bool (Literal s (BoolValue b)) = b"

text \<open>
  The Python values that flow through the constraint code: what a script returns
  (\<open>None\<close>, booleans, numbers, strings, dicts with string keys, lists), terms of the
  graph (\<open>PNode\<close>), literals built at run time by \<^verbatim>\<open>Literal(x)\<close> from a Python value
  (\<open>PLiteral\<close>), and tuples. A dict is an association list in insertion order;
  \<open>map_of\<close> is its lookup.
\<close>

datatype pyval =
    PNone
  | PBool bool
  | PInt int
  | PStr string
  | PNode node
  | PLiteral pyval
  | PDict "(string \<times> pyval) list"
  | PList "pyval list"
  | PTuple "pyval list"

text \<open>
  \<^verbatim>\<open>isinstance(x, str)\<close>. rdflib's terms are subclasses of \<^verbatim>\<open>str\<close>
  (\<^verbatim>\<open>class Identifier(Node, str)\<close>), so a term is a string for this test.
\<close>

fun isinstance_str :: "pyval \<Rightarrow> bool" where
  "isinstance_str (PStr s) = True"
| "isinstance_str (PNode n) = True"
| "isinstance_str (PLiteral x) = True"
| "isinstance_str x = False"

fun isinstance_bool :: "pyval \<Rightarrow> bool" where
  "isinstance_bool (PBool b) = True"
| "isinstance_bool x = False"

fun isinstance_dict :: "pyval \<Rightarrow> bool" where
  "isinstance_dict (PDict d) = True"
| "isinstance_dict x = False"

fun isinstance_list :: "pyval \<Rightarrow> bool" where
  "isinstance_list (PList xs) = True"
| "isinstance_list x = False"

text \<open>
  Python truthiness (\<^verbatim>\<open>bool(x)\<close>, as used by \<^verbatim>\<open>or\<close>, \<^verbatim>\<open>not\<close> and \<^verbatim>\<open>if\<close>).
  A literal built by \<^verbatim>\<open>Literal(x)\<close> has the Python value \<open>x\<close>, so it has the truth
  of \<open>x\<close>; \<^verbatim>\<open>Literal(None)\<close> has no value and the lexical form \<^verbatim>\<open>None\<close>, which
  is not empty, so it is true.
\<close>

fun truthy :: "pyval \<Rightarrow> bool" where
  "truthy PNone = False"
| "truthy (PBool b) = b"
| "truthy (PInt i) = (i \<noteq> 0)"
| "truthy (PStr s) = (s \<noteq> [])"
| "truthy (PNode n) = node_bool n"
| "truthy (PLiteral x) = (x = PNone \<or> truthy x)"
| "truthy (PDict d) = (d \<noteq> [])"
| "truthy (PList xs) = (xs \<noteq> [])"
| "truthy (PTuple xs) = (xs \<noteq> [])"

text \<open>\<^verbatim>\<open>d.get(k, default)\<close>\<close>

definition dict_get :: "(string \<times> pyval) list \<Rightarrow> string \<Rightarrow> pyval \<Rightarrow> pyval" where
  "dict_get d k dflt = (case map_of d k of None \<Rightarrow> dflt | Some x \<Rightarrow> x)"

text \<open>
  The exceptions of the module, with their messages, and the Python exceptions the code
  can run into. \<open>ScriptError\<close> is any exception raised by the script engine.
\<close>

datatype error =
    ConstraintLoadError string
  | ReportableRuntimeError string
  | ValidationFailure string
  | KeyError string
  | TypeError
  | ValueError
  | ScriptError string

section \<open>Validation reports\<close>

text \<open>
  \<^verbatim>\<open>make_v_result(graph, focus, value_node=None, result_path=None,
  extra_messages=None, constraint_component=None)\<close> belongs to the surrounding engine.
  A report records the arguments of the call.
\<close>

record report =
  focus_node :: pyval
  value_node :: pyval
  result_path :: pyval
  extra_messages :: "pyval list option"
  constraint_component :: pyval

definition make_v_result ::
  "pyval \<Rightarrow> pyval \<Rightarrow> pyval \<Rightarrow> pyval list option \<Rightarrow> pyval \<Rightarrow> report" where
  "make_v_result f vn p msgs cc =
     \<lparr>focus_node = f, value_node = vn, result_path = p, extra_messages = msgs,
      constraint_component = cc\<rparr>"

section \<open>JSConstraint: interpreting the result of a script\<close>

text \<open>
  The report of a dict result (lines 163-171, and again 181-190 for a dict inside a list):
  \<^verbatim>\<open>
  val = res.get('value', None)
  if val is None: val = v
  path = res.get('path', None) if not self.shape.is_property_shape else None
  msgs = []
  message = res.get('message', None)
  if message is not None: msgs.append(Literal(message))
  reports.append(self.make_v_result(data_graph, f, value_node=val, result_path=path,
                                    extra_messages=msgs))
  \<close>
\<close>

definition dict_result :: "bool \<Rightarrow> node \<Rightarrow> node \<Rightarrow> (string \<times> pyval) list \<Rightarrow> report" where
  "dict_result is_property_shape f v d =
     (let val = dict_get d ''value'' PNone;
          val = (if val = PNone then PNode v else val);
          path = (if \<not> is_property_shape then dict_get d ''path'' PNone else PNone);
          message = dict_get d ''message'' PNone;
          msgs = (if message \<noteq> PNone then [PLiteral message] else [])
      in make_v_result (PNode f) val path (Some msgs) PNone)"

text \<open>
  The body of the loop over a list result (lines 173-190): the reports one element \<open>r\<close>
  appends. The loop sets \<^verbatim>\<open>failed = True\<close> before it looks at the element.
\<close>

definition list_element_reports :: "bool \<Rightarrow> node \<Rightarrow> node \<Rightarrow> pyval \<Rightarrow> report list" where
  "list_element_reports is_property_shape f v r =
     (if isinstance_bool r \<and> \<not> truthy r then
        [make_v_result (PNode f) (PNode v) PNone None PNone]
      else if isinstance_str r then
        [make_v_result (PNode f) (PNode v) PNone (Some [PLiteral r]) PNone]
      else (case r of
              PDict d \<Rightarrow> [dict_result is_property_shape f v d]
            | _ \<Rightarrow> []))"

fun list_result :: "bool \<Rightarrow> node \<Rightarrow> node \<Rightarrow> pyval list \<Rightarrow> bool \<times> report list \<Rightarrow> bool \<times> report list" where
  "list_result is_property_shape f v [] (failed, reports) = (failed, reports)"
| "list_result is_property_shape f v (r # rs) (failed, reports) =
     list_result is_property_shape f v rs
       (True, reports @ list_element_reports is_property_shape f v r)"

text \<open>
  Lines 151-190 for one result \<open>res\<close> of the pair \<open>(f, v)\<close>: the flag \<open>failed\<close> and the
  reports appended.
\<close>

definition interpret_result :: "bool \<Rightarrow> node \<Rightarrow> node \<Rightarrow> pyval \<Rightarrow> bool \<times> report list" where
  "interpret_result is_property_shape f v res =
     (if isinstance_bool res \<and> \<not> truthy res then
        (True, [make_v_result (PNode f) (PNode v) PNone None PNone])
      else if isinstance_str res then
        (True, [make_v_result (PNode f) (PNode v) PNone (Some [PLiteral res]) PNone])
      else (case res of
              PDict d \<Rightarrow> (True, [dict_result is_property_shape f v d])
            | PList rs \<Rightarrow> list_result is_property_shape f v rs (False, [])
            | _ \<Rightarrow> (False, [])))"

text \<open>
  \<^verbatim>\<open>js_exe.execute(data_graph, f, v)\<close> runs in the script engine, outside this module:
  it is the parameter \<open>execute\<close>, which returns the raw result or raises. An exception
  is re-raised (lines 191-192), so it ends the evaluation.

  \<open>f_v_dict\<close> is the dict from focus nodes to their value nodes, in iteration order.
\<close>

type_synonym js_execute = "node \<Rightarrow> node \<Rightarrow> error + pyval"

fun value_nodes_loop ::
  "bool \<Rightarrow> js_execute \<Rightarrow> node \<Rightarrow> node list \<Rightarrow> bool \<times> report list \<Rightarrow> error + bool \<times> report list" where
  "value_nodes_loop is_property_shape execute f [] (non_conformant, reports) =
     Inr (non_conformant, reports)"
| "value_nodes_loop is_property_shape execute f (v # vs) (non_conformant, reports) =
     (case execute f v of
        Inl e \<Rightarrow> Inl e
      | Inr res \<Rightarrow>
          (case interpret_result is_property_shape f v res of
             (failed, rs) \<Rightarrow>
               value_nodes_loop is_property_shape execute f vs
                 (if failed then True else non_conformant, reports @ rs)))"

fun focus_nodes_loop ::
  "bool \<Rightarrow> js_execute \<Rightarrow> (node \<times> node list) list \<Rightarrow> bool \<times> report list \<Rightarrow> error + bool \<times> report list" where
  "focus_nodes_loop is_property_shape execute [] acc = Inr acc"
| "focus_nodes_loop is_property_shape execute ((f, value_nodes) # rest) acc =
     (case value_nodes_loop is_property_shape execute f value_nodes acc of
        Inl e \<Rightarrow> Inl e
      | Inr acc' \<Rightarrow> focus_nodes_loop is_property_shape execute rest acc')"

text \<open>\<^verbatim>\<open>JSConstraint._evaluate_js_exe\<close>: returns \<open>(non_conformant, reports)\<close>.\<close>

definition evaluate_js_exe ::
  "bool \<Rightarrow> js_execute \<Rightarrow> (node \<times> node list) list \<Rightarrow> error + bool \<times> report list" where
  "evaluate_js_exe is_property_shape execute f_v_dict =
     focus_nodes_loop is_property_shape execute f_v_dict (False, [])"

text \<open>
  \<^verbatim>\<open>JSConstraint.evaluate\<close>: every executable of the constraint in turn; returns
  \<open>(not non_conformant, reports)\<close>.
\<close>

fun js_exes_loop ::
  "bool \<Rightarrow> js_execute list \<Rightarrow> (node \<times> node list) list \<Rightarrow> bool \<times> report list \<Rightarrow> error + bool \<times> report list" where
  "js_exes_loop is_property_shape [] f_v_dict acc = Inr acc"
| "js_exes_loop is_property_shape (c # cs) f_v_dict (non_conformant, reports) =
     (case evaluate_js_exe is_property_shape c f_v_dict of
        Inl e \<Rightarrow> Inl e
      | Inr (n, r) \<Rightarrow>
          js_exes_loop is_property_shape cs f_v_dict (non_conformant \<or> n, reports @ r))"

definition JSConstraint_evaluate ::
  "bool \<Rightarrow> js_execute list \<Rightarrow> (node \<times> node list) list \<Rightarrow> error + bool \<times> report list" where
  "JSConstraint_evaluate is_property_shape js_exes focus_value_nodes =
     (case js_exes_loop is_property_shape js_exes focus_value_nodes (False, []) of
        Inl e \<Rightarrow> Inl e
      | Inr (non_conformant, reports) \<Rightarrow> Inr (\<not> non_conformant, reports))"

section \<open>The shapes graph\<close>

text \<open>
  A graph is its triples in the order the store yields them;
  \<^verbatim>\<open>sg.objects(s, p)\<close> yields the objects of the triples with subject \<open>s\<close> and
  predicate \<open>p\<close>, in that order.
\<close>

type_synonym graph = "(node \<times> node \<times> node) list"

definition objects :: "graph \<Rightarrow> node \<Rightarrow> node \<Rightarrow> node list" where
  "objects g s p = map (\<lambda>(s', p', ob). ob) (filter (\<lambda>(s', p', ob). s' = s \<and> p' = p) g)"

definition SH_term :: "string \<Rightarrow> node" where
  "SH_term name = URIRef (''http://www.w3.org/ns/shacl#'' @ name)"

definition SH_jsFunctionName :: node where "SH_jsFunctionName = SH_term ''jsFunctionName''"
definition SH_jsLibrary :: node where "SH_jsLibrary = SH_term ''jsLibrary''"
definition SH_jsLibraryURL :: node where "SH_jsLibraryURL = SH_term ''jsLibraryURL''"
definition SH_message :: node where "SH_message = SH_term ''message''"

section \<open>JSExecutable\<close>

text \<open>
  Lines 27-46 of \<^verbatim>\<open>JSExecutable.__init__\<close>: the function name.
  \<^verbatim>\<open>set(sg.objects(node, SH_jsFunctionName))\<close> is the list of objects without its
  duplicates; only its size and, when that is one, its element are used.
\<close>

definition JSExecutable_fn_name :: "graph \<Rightarrow> node \<Rightarrow> error + string" where
  "JSExecutable_fn_name sg node =
     (let fn_names = remdups (objects sg node SH_jsFunctionName) in
      if length fn_names < 1 then
        Inl (ConstraintLoadError
          ''At least one sh:jsFunctionName must be present on a JS Executable.'')
      else if length fn_names > 1 then
        Inl (ConstraintLoadError
          ''At most one sh:jsFunctionName can be present on a JS Executable.'')
      else
        (let fn_name = hd fn_names in
         if \<not> is_Literal fn_name then
           Inl (ConstraintLoadError
             ''sh:jsFunctionName must be an RDF Literal with type xsd:string.'')
         else Inr (str_node fn_name)))"

text \<open>
  Lines 62-68 (and 82-88): the loop over the URLs of one library.
  \<^verbatim>\<open>libraries[libn].append(str(u))\<close> raises \<open>KeyError\<close> on a missing key.
\<close>

fun jsLibraryURLs_loop ::
  "node \<Rightarrow> node list \<Rightarrow> (node \<times> string list) list \<Rightarrow> error + (node \<times> string list) list" where
  "jsLibraryURLs_loop libn [] libraries = Inr libraries"
| "jsLibraryURLs_loop libn (u # us) libraries =
     (if \<not> is_Literal u then
        Inl (ConstraintLoadError ''sh:jsLibraryURL must have a value that is a Literal.'')
      else (case map_of libraries libn of
              None \<Rightarrow> Inl (KeyError (str_node libn))
            | Some urls \<Rightarrow>
                jsLibraryURLs_loop libn us (AList.update libn (urls @ [str_node u]) libraries)))"

text \<open>
  Lines 53-68 (and the same text at 73-88): the visit of a library node that has not been
  seen. The state is \<open>(seen_library_defs, libraries)\<close>.
\<close>

definition visit_library ::
  "graph \<Rightarrow> node \<Rightarrow> node list \<times> (node \<times> string list) list
     \<Rightarrow> error + node list \<times> (node \<times> string list) list" where
  "visit_library sg libn st =
     (case st of (seen_library_defs, libraries) \<Rightarrow>
      if is_Literal libn then
        Inl (ConstraintLoadError ''sh:jsLibrary must not have a value that is a Literal.'')
      else
        (let seen_library_defs = seen_library_defs @ [libn];
             jsLibraryURLs = objects sg libn SH_jsLibraryURL;
             libraries =
               (if length jsLibraryURLs > 0 then
                  AList.update libn
                    (case map_of libraries libn of None \<Rightarrow> [] | Some urls \<Rightarrow> urls) libraries
                else libraries)
         in case jsLibraryURLs_loop libn jsLibraryURLs libraries of
              Inl e \<Rightarrow> Inl e
            | Inr libraries \<Rightarrow> Inr (seen_library_defs, libraries)))"

text \<open>Lines 70-88: the libraries of a library. Their own libraries are not read.\<close>

fun library_defs2_loop ::
  "graph \<Rightarrow> node list \<Rightarrow> node list \<times> (node \<times> string list) list
     \<Rightarrow> error + node list \<times> (node \<times> string list) list" where
  "library_defs2_loop sg [] st = Inr st"
| "library_defs2_loop sg (libn2 # rest) st =
     (if libn2 \<in> set (fst st) then library_defs2_loop sg rest st
      else (case visit_library sg libn2 st of
              Inl e \<Rightarrow> Inl e
            | Inr st' \<Rightarrow> library_defs2_loop sg rest st'))"

text \<open>Lines 50-88: the libraries of the source node.\<close>

fun library_defs_loop ::
  "graph \<Rightarrow> node list \<Rightarrow> node list \<times> (node \<times> string list) list
     \<Rightarrow> error + node list \<times> (node \<times> string list) list" where
  "library_defs_loop sg [] st = Inr st"
| "library_defs_loop sg (libn # rest) st =
     (if libn \<in> set (fst st) then library_defs_loop sg rest st
      else (case visit_library sg libn st of
              Inl e \<Rightarrow> Inl e
            | Inr st' \<Rightarrow>
                (case library_defs2_loop sg (objects sg libn SH_jsLibrary) st' of
                   Inl e \<Rightarrow> Inl e
                 | Inr st'' \<Rightarrow> library_defs_loop sg rest st'')))"

text \<open>
  \<^verbatim>\<open>JSExecutable.__init__\<close> and the slots of a \<open>JSExecutable\<close>. \<open>libraries\<close> is a dict from library nodes to their
  URLs, kept in insertion order.
\<close>

record JSExecutable =
  exe_sg :: graph
  exe_node :: node
  fn_name :: string
  libraries :: "(node \<times> string list) list"


definition JSExecutable_init :: "graph \<Rightarrow> node \<Rightarrow> error + JSExecutable" where
  "JSExecutable_init sg node =
     (case JSExecutable_fn_name sg node of
        Inl e \<Rightarrow> Inl e
      | Inr fn \<Rightarrow>
          (case library_defs_loop sg (objects sg node SH_jsLibrary) ([], []) of
             Inl e \<Rightarrow> Inl e
           | Inr (seen_library_defs, libs) \<Rightarrow>
               Inr \<lparr>exe_sg = sg, exe_node = node, fn_name = fn, libraries = libs\<rparr>))"

section \<open>Shapes, parameters and constraint components\<close>

text \<open>
  What this module reads of the engine's objects. A \<open>ShapesGraph\<close> wraps an rdflib graph:
  \<open>sg_graph_id\<close> is \<^verbatim>\<open>id(shacl_graph.graph)\<close>, the identity of the wrapped graph
  object, and \<open>sg_graph\<close> its triples. \<^verbatim>\<open>shape.objects(path)\<close> are the objects of the
  shape's node in the shapes graph. A parameter has \<^verbatim>\<open>localname\<close>, \<^verbatim>\<open>path()\<close>
  and \<^verbatim>\<open>optional\<close>. The validator collections of a component are lists in
  iteration order, so \<^verbatim>\<open>next(iter(c))\<close> is the head of a non-empty one.
\<close>

record ShapesGraph =
  sg_graph_id :: nat
  sg_graph :: graph

record Shape =
  is_property_shape :: bool
  shape_node :: node
  shape_sg :: ShapesGraph

definition shape_objects :: "Shape \<Rightarrow> node \<Rightarrow> node list" where
  "shape_objects shape p = objects (sg_graph (shape_sg shape)) (shape_node shape) p"

record Parameter =
  localname :: string
  param_path :: node
  optional :: bool

record JSConstraintComponent =
  cc_sg :: ShapesGraph
  cc_node :: node
  parameters :: "Parameter list"
  validators :: "node list"
  node_validators :: "node list"
  property_validators :: "node list"

section \<open>BoundShapeJSValidatorComponent: binding the parameters\<close>

definition invalid_parameter_names :: "string set" where
  "invalid_parameter_names =
     {''this'', ''shapesGraph'', ''currentShape'', ''path'', ''PATH'', ''value''}"

text \<open>
  \<^verbatim>\<open>bind_params\<close>, lines 217-236. \<^verbatim>\<open>set(shape.objects(p.path()))\<close> is the list
  of objects without its duplicates. Python fixes no iteration order for a set, so
  \<^verbatim>\<open>next(iter(shape_params))\<close> is the parameter \<open>next_iter\<close>, applied to a non-empty
  list; all that is known of it is that it returns a member.
\<close>

fun bind_params_loop ::
  "(node list \<Rightarrow> node) \<Rightarrow> Shape \<Rightarrow> Parameter list \<Rightarrow> (string \<times> node) list
     \<Rightarrow> error + (string \<times> node) list" where
  "bind_params_loop next_iter shape [] bind_map = Inr bind_map"
| "bind_params_loop next_iter shape (p # ps) bind_map =
     (let name = localname p in
      if name \<in> invalid_parameter_names then
        Inl (ReportableRuntimeError (''Parameter name '' @ name @ '' cannot be used.''))
      else
        (let shape_params = remdups (shape_objects shape (param_path p)) in
         if length shape_params < 1 then
           (if \<not> optional p then
              Inl (ReportableRuntimeError
                (''Shape does not have mandatory parameter '' @ str_node (param_path p) @ ''.''))
            else bind_params_loop next_iter shape ps bind_map)
         else
           bind_params_loop next_iter shape ps
             (AList.update name (next_iter shape_params) bind_map)))"

definition bind_params ::
  "(node list \<Rightarrow> node) \<Rightarrow> JSConstraintComponent \<Rightarrow> Shape \<Rightarrow> error + (string \<times> node) list" where
  "bind_params next_iter constraint shape =
     bind_params_loop next_iter shape (parameters constraint) []"

text \<open>
  \<^verbatim>\<open>BoundShapeJSValidatorComponent.__init__\<close>: the bound component keeps the
  constraint, the shape, the validator, the binding map and an empty list of messages.
\<close>

record 'v BoundShapeJSValidatorComponent =
  bound_shape :: Shape
  bound_constraint :: JSConstraintComponent
  bound_validator :: 'v
  param_bind_map :: "(string \<times> node) list"
  bound_messages :: "pyval list"

definition BoundShapeJSValidatorComponent_init ::
  "(node list \<Rightarrow> node) \<Rightarrow> JSConstraintComponent \<Rightarrow> Shape \<Rightarrow> 'v
     \<Rightarrow> error + 'v BoundShapeJSValidatorComponent" where
  "BoundShapeJSValidatorComponent_init next_iter constraint shape validator =
     (case bind_params next_iter constraint shape of
        Inl e \<Rightarrow> Inl e
      | Inr bind_map \<Rightarrow>
          Inr \<lparr>bound_shape = shape, bound_constraint = constraint,
               bound_validator = validator, param_bind_map = bind_map,
               bound_messages = []\<rparr>)"

section \<open>BoundShapeJSValidatorComponent.evaluate\<close>





section \<open>JSConstraintComponentValidator\<close>

text \<open>
  The attributes of a validator object; one that \<^verbatim>\<open>__init__\<close> has not set is
  \<open>None\<close>, and \<^verbatim>\<open>getattr(self, 'initialised', False)\<close> is the field \<open>initialised\<close>.
\<close>

record JSConstraintComponentValidator =
  v_shacl_graph :: "ShapesGraph option"
  v_node :: "node option"
  v_messages :: "node list option"
  v_js_exe :: "JSExecutable option"
  initialised :: bool

definition blank_validator :: JSConstraintComponentValidator where
  "blank_validator =
     \<lparr>v_shacl_graph = None, v_node = None, v_messages = None, v_js_exe = None,
      initialised = False\<rparr>"

text \<open>
  The state the class works on: the class attribute \<open>validator_cache\<close>, a dict from
  \<open>(id(graph), str(node))\<close> to validator objects, and the object store. An object is its
  address; \<open>next_addr\<close> is the first address not yet given out.
\<close>

record py_state =
  validator_cache :: "nat \<times> string \<rightharpoonup> nat"
  heap :: "nat \<Rightarrow> JSConstraintComponentValidator"
  next_addr :: nat

definition empty_state :: py_state where
  "empty_state = \<lparr>validator_cache = Map.empty, heap = (\<lambda>a. blank_validator), next_addr = 0\<rparr>"

text \<open>
  \<^verbatim>\<open>__new__\<close>, lines 335-342. A cached object is truthy (the class defines neither
  \<^verbatim>\<open>__bool__\<close> nor \<^verbatim>\<open>__len__\<close>), so a hit returns it.
\<close>

definition JSConstraintComponentValidator_new ::
  "py_state \<Rightarrow> ShapesGraph \<Rightarrow> node \<Rightarrow> py_state \<times> nat" where
  "JSConstraintComponentValidator_new st shacl_graph node =
     (let cache_key = (sg_graph_id shacl_graph, str_node node) in
      case validator_cache st cache_key of
        Some found_in_cache \<Rightarrow> (st, found_in_cache)
      | None \<Rightarrow>
          (let self = next_addr st in
           (st\<lparr>validator_cache := (validator_cache st)(cache_key \<mapsto> self),
               heap := (heap st)(self := blank_validator),
               next_addr := Suc self\<rparr>, self)))"

text \<open>
  \<^verbatim>\<open>__init__\<close>, lines 344-361. The test on a message is
  \<^verbatim>\<open>isinstance(m, Literal) and isinstance(m.value, str)\<close>.
\<close>

definition JSConstraintComponentValidator_init ::
  "py_state \<Rightarrow> nat \<Rightarrow> ShapesGraph \<Rightarrow> node \<Rightarrow> py_state \<times> (error + unit)" where
  "JSConstraintComponentValidator_init st self shacl_graph node =
     (let obj = heap st self in
      if initialised obj then (st, Inr ())
      else
        (let obj = obj\<lparr>v_shacl_graph := Some shacl_graph, v_node := Some node\<rparr>;
             sg = sg_graph shacl_graph;
             message_nodes = remdups (objects sg node SH_message)
         in if \<not> list_all (\<lambda>m. is_Literal m \<and> value_is_str m) message_nodes then
              (st\<lparr>heap := (heap st)(self := obj)\<rparr>,
               Inl (ConstraintLoadError
                 ''Validator sh:message must be an RDF Literal of type xsd:string.''))
            else
              (let obj = obj\<lparr>v_messages := Some message_nodes\<rparr> in
               case JSExecutable_init sg node of
                 Inl e \<Rightarrow> (st\<lparr>heap := (heap st)(self := obj)\<rparr>, Inl e)
               | Inr exe \<Rightarrow>
                   (st\<lparr>heap := (heap st)(self := obj\<lparr>v_js_exe := Some exe,
                                                      initialised := True\<rparr>)\<rparr>,
                    Inr ()))))"

text \<open>
  The call \<^verbatim>\<open>JSConstraintComponentValidator(shacl_graph, node)\<close>: \<^verbatim>\<open>__new__\<close>,
  then \<^verbatim>\<open>__init__\<close> on the object it returns.
\<close>

definition JSConstraintComponentValidator_call ::
  "py_state \<Rightarrow> ShapesGraph \<Rightarrow> node \<Rightarrow> py_state \<times> (error + nat)" where
  "JSConstraintComponentValidator_call st shacl_graph node =
     (case JSConstraintComponentValidator_new st shacl_graph node of
        (st1, self) \<Rightarrow>
          (case JSConstraintComponentValidator_init st1 self shacl_graph node of
             (st2, Inl e) \<Rightarrow> (st2, Inl e)
           | (st2, Inr u) \<Rightarrow> (st2, Inr self)))"

text \<open>A run of constructions, one after the other.\<close>

fun calls :: "py_state \<Rightarrow> (ShapesGraph \<times> node) list \<Rightarrow> py_state" where
  "calls st [] = st"
| "calls st ((g, n) # rest) = calls (fst (JSConstraintComponentValidator_call st g n)) rest"

text \<open>
  The invariant of the state: every cached object has been given out, and no object is
  cached under two keys.
\<close>

definition cache_ok :: "py_state \<Rightarrow> bool" where
  "cache_ok st \<longleftrightarrow>
     (\<forall>k a. validator_cache st k = Some a \<longrightarrow> a < next_addr st)
     \<and> (\<forall>k k' a. validator_cache st k = Some a \<and> validator_cache st k' = Some a \<longrightarrow> k = k')"

text \<open>
  \<^verbatim>\<open>validate\<close>, lines 363-410. \<^verbatim>\<open>self.js_exe.execute(target_graph, *args)\<close> is the
  parameter \<open>execute\<close>: it raises or returns \<open>None\<close> or a table, whose \<open>bindings\<close> are
  rows from column names to values. \<open>violations\<close> is a set: \<open>set_add\<close> adds an element
  that is not yet in it.
\<close>

definition set_add :: "pyval \<Rightarrow> pyval list \<Rightarrow> pyval list" where
  "set_add x xs = (if x \<in> set xs then xs else xs @ [x])"

text \<open>Lines 386-409: one row of the table.\<close>

definition row_violations :: "(string \<times> pyval) list \<Rightarrow> pyval list \<Rightarrow> pyval list" where
  "row_violations r violations =
     (let p = (case map_of r ''path'' of Some x \<Rightarrow> x | None \<Rightarrow> PNone);
          v = (case map_of r ''value'' of Some x \<Rightarrow> x | None \<Rightarrow> PNone);
          t = (case map_of r ''this'' of Some x \<Rightarrow> x | None \<Rightarrow> PNone)
      in if truthy p \<or> truthy v \<or> truthy t then set_add (PTuple [t, p, v]) violations
         else (case map_of r ''failure'' of
                 Some x \<Rightarrow> set_add (PBool True) violations
               | None \<Rightarrow> violations))"

fun results_loop :: "(string \<times> pyval) list list \<Rightarrow> pyval list \<Rightarrow> pyval list" where
  "results_loop [] violations = violations"
| "results_loop (r # rs) violations = results_loop rs (row_violations r violations)"

text \<open>
  Every path through the body of \<^verbatim>\<open>for v in value_nodes\<close> ends in a
  \<^verbatim>\<open>return\<close> (lines 383 and 410), so the body runs for the first value node only.
  With no value node the function falls off its end and returns \<open>None\<close>.
  \<^verbatim>\<open>bind_vals['maxLength']\<close> raises \<open>KeyError\<close> on a missing key.
\<close>

definition validate ::
  "(pyval list \<Rightarrow> error + (string \<times> pyval) list list option)
     \<Rightarrow> node \<Rightarrow> node list \<Rightarrow> (string \<times> node) list \<Rightarrow> (string \<times> node) list option
     \<Rightarrow> error + pyval list option" where
  "validate execute focus value_nodes param_bind_vals new_bind_vals =
     (let new_bind_vals = (case new_bind_vals of None \<Rightarrow> [] | Some d \<Rightarrow> d);
          bind_vals = foldl (\<lambda>d (k, x). AList.update k x d) param_bind_vals new_bind_vals
      in case value_nodes of
           [] \<Rightarrow> Inr None
         | v # rest \<Rightarrow>
             (case map_of bind_vals ''maxLength'' of
                None \<Rightarrow> Inl (KeyError ''maxLength'')
              | Some max_length \<Rightarrow>
                  (case execute [PNode v, PNode max_length] of
                     Inl e \<Rightarrow> Inl e
                   | Inr results \<Rightarrow>
                       (case results of
                          None \<Rightarrow> Inr (Some [])
                        | Some bindings \<Rightarrow>
                            if length bindings < 1 then Inr (Some [])
                            else Inr (Some (results_loop bindings []))))))"

section \<open>JSConstraintComponent: the validator of a shape\<close>

text \<open>Lines 313-326: the choice of the validator node.\<close>

definition select_validator_node :: "JSConstraintComponent \<Rightarrow> Shape \<Rightarrow> error + node" where
  "select_validator_node self shape =
     (let val_count = length (validators self);
          node_val_count = length (node_validators self);
          prop_val_count = length (property_validators self)
      in if is_property_shape shape \<and> prop_val_count > 0 then
           Inr (hd (property_validators self))
         else if \<not> is_property_shape shape \<and> node_val_count > 0 then
           Inr (hd (node_validators self))
         else if val_count > 0 then Inr (hd (validators self))
         else Inl (ConstraintLoadError
                ''Cannot select a validator to use, according to the rules.''))"

text \<open>
  \<^verbatim>\<open>make_validator_for_shape\<close>: the choice, then the validator object for the chosen
  node (from the cache or new), then the bound component of
  \<^verbatim>\<open>apply_to_shape_via_constraint\<close>.
\<close>

definition make_validator_for_shape ::
  "(node list \<Rightarrow> node) \<Rightarrow> py_state \<Rightarrow> JSConstraintComponent \<Rightarrow> Shape
     \<Rightarrow> py_state \<times> (error + nat BoundShapeJSValidatorComponent)" where
  "make_validator_for_shape next_iter st self shape =
     (case select_validator_node self shape of
        Inl e \<Rightarrow> (st, Inl e)
      | Inr validator_node \<Rightarrow>
          (case JSConstraintComponentValidator_call st (cc_sg self) validator_node of
             (st', Inl e) \<Rightarrow> (st', Inl e)
           | (st', Inr validator) \<Rightarrow>
               (st', BoundShapeJSValidatorComponent_init next_iter self shape validator)))"

section \<open>Properties of JSConstraint\<close>

lemma list_result_eq:
  "list_result P f v rs (failed, reports) =
     (failed \<or> rs \<noteq> [], reports @ concat (map (list_element_reports P f v) rs))"
  by (induction rs arbitrary: failed reports) auto

lemma evaluate_js_exe_single:
  "execute f v = Inr res \<Longrightarrow>
   evaluate_js_exe P execute [(f, [v])] = Inr (interpret_result P f v res)"
  by (cases "interpret_result P f v res") (simp add: evaluate_js_exe_def)

lemma dict_result_None_as_absent:
  assumes "k = ''value'' \<or> k = ''message''"
    and "map_of d k = Some PNone" and "map_of d' k = None"
    and "\<forall>k'. k' \<noteq> k \<longrightarrow> map_of d' k' = map_of d k'"
  shows "dict_result P f v d = dict_result P f v d'"
  using assms by (auto simp: dict_result_def dict_get_def)

text \<open>
  C1. One evaluation of a JSConstraint on one pair \<open>(f, v)\<close>, by the shape of the raw
  result \<open>res\<close> of the script: \<open>False\<close> gives one report on the original value node,
  \<open>True\<close> gives no report and the pair passes, a string gives one report with the string
  as its message, a dict gives one report whose value node is the dict's \<open>value\<close> (the
  original value node when the lookup gives nothing), whose path is the dict's \<open>path\<close>
  unless the shape is a property shape, and whose messages hold the dict's \<open>message\<close>;
  anything that is no boolean, string, dict or list gives no report and the pair passes.
  A key bound to \<open>None\<close> counts as not present (see C10).
\<close>

theorem JSConstraint_scalar_result_classification:
  assumes "execute f v = Inr res"
  shows "(res = PBool False \<longrightarrow>
            evaluate_js_exe P execute [(f, [v])] =
              Inr (True, [make_v_result (PNode f) (PNode v) PNone None PNone]))
       \<and> (res = PBool True \<longrightarrow> evaluate_js_exe P execute [(f, [v])] = Inr (False, []))
       \<and> (\<forall>s. res = PStr s \<longrightarrow>
            evaluate_js_exe P execute [(f, [v])] =
              Inr (True,
                [make_v_result (PNode f) (PNode v) PNone (Some [PLiteral (PStr s)]) PNone]))
       \<and> (\<forall>d. res = PDict d \<longrightarrow>
            evaluate_js_exe P execute [(f, [v])] =
              Inr (True,
                [make_v_result (PNode f)
                   (case map_of d ''value'' of
                      None \<Rightarrow> PNode v
                    | Some x \<Rightarrow> if x = PNone then PNode v else x)
                   (if P then PNone
                    else (case map_of d ''path'' of None \<Rightarrow> PNone | Some p \<Rightarrow> p))
                   (Some (case map_of d ''message'' of
                            None \<Rightarrow> []
                          | Some m \<Rightarrow> if m = PNone then [] else [PLiteral m]))
                   PNone]))
       \<and> (\<not> isinstance_bool res \<and> \<not> isinstance_str res \<and> \<not> isinstance_dict res
            \<and> \<not> isinstance_list res \<longrightarrow>
            evaluate_js_exe P execute [(f, [v])] = Inr (False, []))"
  using assms
  by (cases res)
     (auto simp: evaluate_js_exe_single interpret_result_def dict_result_def dict_get_def
           split: option.splits)

theorem JSConstraint_scalar_result_classification_witness:
  "evaluate_js_exe False (\<lambda>f v. Inr (PBool False)) [(URIRef ''F'', [Literal ''bad'' (StrValue ''bad'')])] =
     Inr (True, [make_v_result (PNode (URIRef ''F'')) (PNode (Literal ''bad'' (StrValue ''bad''))) PNone None PNone])
   \<and> evaluate_js_exe False (\<lambda>f v. Inr (PBool True)) [(URIRef ''F'', [Literal ''good'' (StrValue ''good'')])] =
     Inr (False, [])
   \<and> evaluate_js_exe False (\<lambda>f v. Inr (PStr ''msg'')) [(URIRef ''F'', [Literal ''bad'' (StrValue ''bad'')])] =
     Inr (True, [make_v_result (PNode (URIRef ''F'')) (PNode (Literal ''bad'' (StrValue ''bad''))) PNone
                   (Some [PLiteral (PStr ''msg'')]) PNone])
   \<and> evaluate_js_exe False
        (\<lambda>f v. Inr (PDict [(''value'', PNode (URIRef ''X'')), (''path'', PNode (URIRef ''p'')),
                           (''message'', PStr ''m'')]))
        [(URIRef ''F'', [Literal ''bad'' (StrValue ''bad'')])] =
     Inr (True, [make_v_result (PNode (URIRef ''F'')) (PNode (URIRef ''X''))
                   (PNode (URIRef ''p'')) (Some [PLiteral (PStr ''m'')]) PNone])
   \<and> evaluate_js_exe True
        (\<lambda>f v. Inr (PDict [(''path'', PNode (URIRef ''p''))]))
        [(URIRef ''F'', [Literal ''bad'' (StrValue ''bad'')])] =
     Inr (True, [make_v_result (PNode (URIRef ''F'')) (PNode (Literal ''bad'' (StrValue ''bad'')))
                   PNone (Some []) PNone])
   \<and> evaluate_js_exe False (\<lambda>f v. Inr (PInt 7)) [(URIRef ''F'', [Literal ''good'' (StrValue ''good'')])] =
     Inr (False, [])"
  using
    JSConstraint_scalar_result_classification
      [of "\<lambda>f v. Inr (PBool False)" "URIRef ''F''" "Literal ''bad'' (StrValue ''bad'')" "PBool False" False]
    JSConstraint_scalar_result_classification
      [of "\<lambda>f v. Inr (PBool True)" "URIRef ''F''" "Literal ''good'' (StrValue ''good'')" "PBool True" False]
    JSConstraint_scalar_result_classification
      [of "\<lambda>f v. Inr (PStr ''msg'')" "URIRef ''F''" "Literal ''bad'' (StrValue ''bad'')" "PStr ''msg''" False]
    JSConstraint_scalar_result_classification
      [of "\<lambda>f v. Inr (PDict [(''value'', PNode (URIRef ''X'')), (''path'', PNode (URIRef ''p'')),
                              (''message'', PStr ''m'')])"
          "URIRef ''F''" "Literal ''bad'' (StrValue ''bad'')"
          "PDict [(''value'', PNode (URIRef ''X'')), (''path'', PNode (URIRef ''p'')),
                  (''message'', PStr ''m'')]" False]
    JSConstraint_scalar_result_classification
      [of "\<lambda>f v. Inr (PDict [(''path'', PNode (URIRef ''p''))])"
          "URIRef ''F''" "Literal ''bad'' (StrValue ''bad'')" "PDict [(''path'', PNode (URIRef ''p''))]" True]
    JSConstraint_scalar_result_classification
      [of "\<lambda>f v. Inr (PInt 7)" "URIRef ''F''" "Literal ''good'' (StrValue ''good'')" "PInt 7" False]
  by simp

text \<open>
  The scenario of a script that returns \<open>False\<close> for the value \<open>bad\<close> and \<open>True\<close> for the
  value \<open>good\<close>, on the focus node \<open>F\<close> with both values: not conformant, one report, on
  \<open>F\<close> and \<open>bad\<close>.
\<close>

lemma JSConstraint_bad_good_scenario:
  "JSConstraint_evaluate P [\<lambda>f v. Inr (PBool (v \<noteq> Literal ''bad'' (StrValue ''bad'')))]
     [(URIRef ''F'', [Literal ''bad'' (StrValue ''bad''), Literal ''good'' (StrValue ''good'')])] =
   Inr (False,
        [make_v_result (PNode (URIRef ''F'')) (PNode (Literal ''bad'' (StrValue ''bad''))) PNone None PNone])"
  by (simp add: JSConstraint_evaluate_def evaluate_js_exe_def interpret_result_def)

text \<open>
  C2. A list result. The list \<open>[False, True, ''m'']\<close> gives exactly two reports, from its
  first and third element. A list whose only element is \<open>True\<close> gives no report, and yet
  the pair is counted as failed: \<open>_evaluate_js_exe\<close> returns \<open>non_conformant = True\<close>
  and \<open>evaluate\<close> returns \<open>conformant = False\<close> with an empty list of reports.
\<close>

theorem JSConstraint_list_result_true_element:
  "evaluate_js_exe P (\<lambda>f v. Inr (PList [PBool False, PBool True, PStr ''m''])) [(f, [v])] =
     Inr (True,
       [make_v_result (PNode f) (PNode v) PNone None PNone,
        make_v_result (PNode f) (PNode v) PNone (Some [PLiteral (PStr ''m'')]) PNone])
   \<and> evaluate_js_exe P (\<lambda>f v. Inr (PList [PBool True])) [(f, [v])] = Inr (True, [])
   \<and> JSConstraint_evaluate P [\<lambda>f v. Inr (PList [PBool True])] [(f, [v])] = Inr (False, [])
   \<and> JSConstraint_evaluate P [\<lambda>f v. Inr (PBool True)] [(f, [v])] = Inr (True, [])"
  by (simp add: JSConstraint_evaluate_def evaluate_js_exe_single interpret_result_def
        list_element_reports_def)

text \<open>
  C10. A dict result whose \<open>value\<close> key is bound to \<open>None\<close> is evaluated exactly as the
  dict without that key: the report's value node is the original value node. The same
  holds for a \<open>message\<close> key bound to \<open>None\<close>: no message is added. Both hold for a dict
  returned by the script and for a dict at any position of a returned list: there the
  dict gives, between the reports of the elements before and after it, the one report
  \<open>dict_result\<close>, whose value node is the original value node (key \<open>value\<close>) and whose
  list of messages is empty (key \<open>message\<close>).
\<close>

theorem JSConstraint_None_valued_key_as_absent:
  assumes "k = ''value'' \<or> k = ''message''"
    and "map_of d k = Some PNone" and "map_of d' k = None"
    and "\<forall>k'. k' \<noteq> k \<longrightarrow> map_of d' k' = map_of d k'"
  shows "evaluate_js_exe P (\<lambda>f v. Inr (PDict d)) [(f, [v])] =
           evaluate_js_exe P (\<lambda>f v. Inr (PDict d')) [(f, [v])]
       \<and> evaluate_js_exe P (\<lambda>f v. Inr (PList (xs @ PDict d # ys))) [(f, [v])] =
           evaluate_js_exe P (\<lambda>f v. Inr (PList (xs @ PDict d' # ys))) [(f, [v])]
       \<and> evaluate_js_exe P (\<lambda>f v. Inr (PDict d)) [(f, [v])] = Inr (True, [dict_result P f v d])
       \<and> (k = ''value'' \<longrightarrow> value_node (dict_result P f v d) = PNode v)
       \<and> (k = ''message'' \<longrightarrow> extra_messages (dict_result P f v d) = Some [])
       \<and> evaluate_js_exe P (\<lambda>f v. Inr (PList (xs @ PDict d # ys))) [(f, [v])] =
           Inr (True,
                concat (map (list_element_reports P f v) xs)
                @ [dict_result P f v d]
                @ concat (map (list_element_reports P f v) ys))
       \<and> (k = ''value'' \<longrightarrow>
            dict_result P f v d =
              make_v_result (PNode f) (PNode v)
                (if P then PNone
                 else (case map_of d ''path'' of None \<Rightarrow> PNone | Some p \<Rightarrow> p))
                (Some (case map_of d ''message'' of
                         None \<Rightarrow> []
                       | Some m \<Rightarrow> if m = PNone then [] else [PLiteral m]))
                PNone)
       \<and> (k = ''message'' \<longrightarrow>
            dict_result P f v d =
              make_v_result (PNode f)
                (case map_of d ''value'' of
                   None \<Rightarrow> PNode v
                 | Some x \<Rightarrow> if x = PNone then PNode v else x)
                (if P then PNone
                 else (case map_of d ''path'' of None \<Rightarrow> PNone | Some p \<Rightarrow> p))
                (Some []) PNone)"
proof -
  have eq: "dict_result P f v d = dict_result P f v d'"
    using assms by (rule dict_result_None_as_absent)
  have top: "interpret_result P f v (PDict d) = interpret_result P f v (PDict d')"
    by (simp add: interpret_result_def eq)
  have elem: "list_element_reports P f v (PDict d) = list_element_reports P f v (PDict d')"
    by (simp add: list_element_reports_def eq)
  have lst: "interpret_result P f v (PList (xs @ PDict d # ys)) =
             interpret_result P f v (PList (xs @ PDict d' # ys))"
    by (simp add: interpret_result_def list_result_eq elem)
  have val: "k = ''value'' \<Longrightarrow> value_node (dict_result P f v d) = PNode v"
    using assms(2) by (simp add: dict_result_def dict_get_def make_v_result_def Let_def)
  have msg: "k = ''message'' \<Longrightarrow> extra_messages (dict_result P f v d) = Some []"
    using assms(2) by (simp add: dict_result_def dict_get_def make_v_result_def Let_def)
  have one: "evaluate_js_exe P (\<lambda>f v. Inr (PDict d)) [(f, [v])] =
             Inr (True, [dict_result P f v d])"
    by (simp add: evaluate_js_exe_single interpret_result_def)
  have inlist: "evaluate_js_exe P (\<lambda>f v. Inr (PList (xs @ PDict d # ys))) [(f, [v])] =
           Inr (True,
                concat (map (list_element_reports P f v) xs)
                @ [dict_result P f v d]
                @ concat (map (list_element_reports P f v) ys))"
    by (simp add: evaluate_js_exe_single interpret_result_def list_result_eq
          list_element_reports_def)
  have full_val: "k = ''value'' \<Longrightarrow>
            dict_result P f v d =
              make_v_result (PNode f) (PNode v)
                (if P then PNone
                 else (case map_of d ''path'' of None \<Rightarrow> PNone | Some p \<Rightarrow> p))
                (Some (case map_of d ''message'' of
                         None \<Rightarrow> []
                       | Some m \<Rightarrow> if m = PNone then [] else [PLiteral m]))
                PNone"
    using assms(2) by (auto simp: dict_result_def dict_get_def Let_def split: option.splits)
  have full_msg: "k = ''message'' \<Longrightarrow>
            dict_result P f v d =
              make_v_result (PNode f)
                (case map_of d ''value'' of
                   None \<Rightarrow> PNode v
                 | Some x \<Rightarrow> if x = PNone then PNode v else x)
                (if P then PNone
                 else (case map_of d ''path'' of None \<Rightarrow> PNone | Some p \<Rightarrow> p))
                (Some []) PNone"
    using assms(2) by (auto simp: dict_result_def dict_get_def Let_def split: option.splits)
  show ?thesis
    using top lst val msg one inlist full_val full_msg
    by (simp add: evaluate_js_exe_single)
qed

theorem JSConstraint_None_valued_key_as_absent_witness:
  "evaluate_js_exe False (\<lambda>f v. Inr (PDict [(''value'', PNone), (''message'', PStr ''m'')]))
      [(URIRef ''F'', [Literal ''x'' (StrValue ''x'')])] =
   evaluate_js_exe False (\<lambda>f v. Inr (PDict [(''message'', PStr ''m'')]))
      [(URIRef ''F'', [Literal ''x'' (StrValue ''x'')])]
   \<and> value_node (dict_result False (URIRef ''F'') (Literal ''x'' (StrValue ''x''))
        [(''value'', PNone), (''message'', PStr ''m'')]) = PNode (Literal ''x'' (StrValue ''x''))
   \<and> evaluate_js_exe False
        (\<lambda>f v. Inr (PList [PBool False, PDict [(''value'', PNone), (''message'', PStr ''m'')]]))
        [(URIRef ''F'', [Literal ''x'' (StrValue ''x'')])] =
     Inr (True,
       [make_v_result (PNode (URIRef ''F'')) (PNode (Literal ''x'' (StrValue ''x''))) PNone None PNone,
        make_v_result (PNode (URIRef ''F'')) (PNode (Literal ''x'' (StrValue ''x''))) PNone
          (Some [PLiteral (PStr ''m'')]) PNone])
   \<and> evaluate_js_exe False
        (\<lambda>f v. Inr (PList [PBool False, PDict [(''value'', PStr ''y''), (''message'', PNone)]]))
        [(URIRef ''F'', [Literal ''x'' (StrValue ''x'')])] =
     evaluate_js_exe False (\<lambda>f v. Inr (PList [PBool False, PDict [(''value'', PStr ''y'')]]))
        [(URIRef ''F'', [Literal ''x'' (StrValue ''x'')])]
   \<and> evaluate_js_exe False
        (\<lambda>f v. Inr (PList [PBool False, PDict [(''value'', PStr ''y''), (''message'', PNone)]]))
        [(URIRef ''F'', [Literal ''x'' (StrValue ''x'')])] =
     Inr (True,
       [make_v_result (PNode (URIRef ''F'')) (PNode (Literal ''x'' (StrValue ''x''))) PNone None PNone,
        make_v_result (PNode (URIRef ''F'')) (PStr ''y'') PNone (Some []) PNone])
   \<and> extra_messages (dict_result False (URIRef ''F'') (Literal ''x'' (StrValue ''x''))
        [(''value'', PStr ''y''), (''message'', PNone)]) = Some []"
proof -
  have v1: "''value'' = ''value'' \<or> ''value'' = ''message''" by simp
  have v2: "map_of [(''value'', PNone), (''message'', PStr ''m'')] ''value'' = Some PNone"
    by simp
  have v3: "map_of [(''message'', PStr ''m'')] ''value'' = None" by simp
  have v4: "\<forall>k'. k' \<noteq> ''value'' \<longrightarrow>
              map_of [(''message'', PStr ''m'')] k' =
              map_of [(''value'', PNone), (''message'', PStr ''m'')] k'" by simp
  have m1: "''message'' = ''value'' \<or> ''message'' = ''message''" by simp
  have m2: "map_of [(''value'', PStr ''y''), (''message'', PNone)] ''message'' = Some PNone"
    by simp
  have m3: "map_of [(''value'', PStr ''y'')] ''message'' = None" by simp
  have m4: "\<forall>k'. k' \<noteq> ''message'' \<longrightarrow>
              map_of [(''value'', PStr ''y'')] k' =
              map_of [(''value'', PStr ''y''), (''message'', PNone)] k'" by simp
  show ?thesis
    using
      JSConstraint_None_valued_key_as_absent
        [OF v1 v2 v3 v4, of False "URIRef ''F''" "Literal ''x'' (StrValue ''x'')" "[PBool False]" "[]"]
      JSConstraint_None_valued_key_as_absent
        [OF m1 m2 m3 m4, of False "URIRef ''F''" "Literal ''x'' (StrValue ''x'')" "[PBool False]" "[]"]
      JSConstraint_None_valued_key_as_absent
        [OF v1 v2 v3 v4, of False "URIRef ''F''" "Literal ''x'' (StrValue ''x'')" "[]" "[]"]
    by (simp add: evaluate_js_exe_def interpret_result_def list_element_reports_def
          dict_result_def dict_get_def make_v_result_def)
qed

section \<open>Properties of JSExecutable\<close>

lemma remdups_singleton_set:
  assumes "set xs = {x}"
  shows "remdups xs = [x]"
proof -
  have "length (remdups xs) = 1"
    using assms by (simp add: length_remdups_card_conv)
  then obtain y where y: "remdups xs = [y]"
    by (cases "remdups xs") auto
  then have "set xs = {y}"
    by (metis list.set(1) list.simps(15) set_remdups)
  with assms y show ?thesis by simp
qed

lemma jsLibraryURLs_loop_ok:
  assumes "\<forall>u\<in>set us. is_Literal u"
    and "us \<noteq> [] \<longrightarrow> map_of libs libn \<noteq> None"
  shows "\<exists>libs'. jsLibraryURLs_loop libn us libs = Inr libs'"
  using assms
proof (induction us arbitrary: libs)
  case Nil
  then show ?case by simp
next
  case (Cons u us)
  from Cons.prems obtain urls where urls: "map_of libs libn = Some urls" by auto
  let ?libs = "AList.update libn (urls @ [str_node u]) libs"
  have "map_of ?libs libn \<noteq> None" by (simp add: update_conv')
  with Cons.IH [of ?libs] Cons.prems(1)
  obtain libs' where "jsLibraryURLs_loop libn us ?libs = Inr libs'" by auto
  with Cons.prems(1) urls show ?case by simp
qed

lemma visit_library_ok:
  assumes "\<not> is_Literal libn" and "\<forall>u\<in>set (objects sg libn SH_jsLibraryURL). is_Literal u"
  shows "\<exists>st'. visit_library sg libn st = Inr st'"
proof -
  obtain seen libs where st: "st = (seen, libs)" by (cases st)
  let ?us = "objects sg libn SH_jsLibraryURL"
  let ?libs = "if length ?us > 0
     then AList.update libn (case map_of libs libn of None \<Rightarrow> [] | Some urls \<Rightarrow> urls) libs
     else libs"
  have "?us \<noteq> [] \<longrightarrow> map_of ?libs libn \<noteq> None"
    by (simp add: update_conv')
  from jsLibraryURLs_loop_ok [OF assms(2) this]
  obtain libs' where "jsLibraryURLs_loop libn ?us ?libs = Inr libs'" ..
  with assms(1) st show ?thesis
    by (simp add: visit_library_def Let_def)
qed

lemma library_defs2_loop_ok:
  assumes "\<forall>l\<in>set ls. \<not> is_Literal l \<and> (\<forall>u\<in>set (objects sg l SH_jsLibraryURL). is_Literal u)"
  shows "\<exists>st'. library_defs2_loop sg ls st = Inr st'"
  using assms
proof (induction ls arbitrary: st)
  case Nil
  then show ?case by simp
next
  case (Cons l ls)
  from Cons.prems have l: "\<not> is_Literal l" "\<forall>u\<in>set (objects sg l SH_jsLibraryURL). is_Literal u"
    and rest: "\<forall>l\<in>set ls. \<not> is_Literal l \<and> (\<forall>u\<in>set (objects sg l SH_jsLibraryURL). is_Literal u)"
    by simp_all
  from visit_library_ok [OF l] obtain st1 where "visit_library sg l st = Inr st1" ..
  with Cons.IH [OF rest, of st] Cons.IH [OF rest, of st1] show ?case by auto
qed

lemma library_defs_loop_ok:
  assumes "\<forall>l\<in>set ls. \<not> is_Literal l
             \<and> (\<forall>u\<in>set (objects sg l SH_jsLibraryURL). is_Literal u)
             \<and> (\<forall>l2\<in>set (objects sg l SH_jsLibrary). \<not> is_Literal l2
                   \<and> (\<forall>u\<in>set (objects sg l2 SH_jsLibraryURL). is_Literal u))"
  shows "\<exists>st'. library_defs_loop sg ls st = Inr st'"
  using assms
proof (induction ls arbitrary: st)
  case Nil
  then show ?case by simp
next
  case (Cons l ls)
  from Cons.prems have l: "\<not> is_Literal l" "\<forall>u\<in>set (objects sg l SH_jsLibraryURL). is_Literal u"
    and l2: "\<forall>l2\<in>set (objects sg l SH_jsLibrary). \<not> is_Literal l2
                   \<and> (\<forall>u\<in>set (objects sg l2 SH_jsLibraryURL). is_Literal u)"
    and rest: "\<forall>l\<in>set ls. \<not> is_Literal l
             \<and> (\<forall>u\<in>set (objects sg l SH_jsLibraryURL). is_Literal u)
             \<and> (\<forall>l2\<in>set (objects sg l SH_jsLibrary). \<not> is_Literal l2
                   \<and> (\<forall>u\<in>set (objects sg l2 SH_jsLibraryURL). is_Literal u))"
    by simp_all
  from visit_library_ok [OF l] obtain st1 where 1: "visit_library sg l st = Inr st1" ..
  from library_defs2_loop_ok [OF l2] obtain st2
    where 2: "library_defs2_loop sg (objects sg l SH_jsLibrary) st1 = Inr st2" ..
  from 1 2 Cons.IH [OF rest, of st] Cons.IH [OF rest, of st2] show ?case by auto
qed

text \<open>
  C4. The function name of a \<open>JSExecutable\<close>. Construction raises
  \<open>ConstraintLoadError\<close> when the source node has no \<open>sh:jsFunctionName\<close> object, when
  it has more than one, and when it has exactly one that is no Literal. With exactly one
  Literal, on a node whose library declarations are well formed (no direct library and
  no library of a direct library is a Literal, and every \<open>sh:jsLibraryURL\<close> object of
  these libraries is a Literal), construction succeeds and \<open>fn_name\<close> is the string of
  that literal; and whenever a construction with exactly one Literal succeeds, \<open>fn_name\<close>
  is the string of that literal.
\<close>

theorem JSExecutable_function_name:
  "(set (objects sg node SH_jsFunctionName) = {} \<longrightarrow>
      JSExecutable_init sg node =
        Inl (ConstraintLoadError
               ''At least one sh:jsFunctionName must be present on a JS Executable.''))
   \<and> (1 < card (set (objects sg node SH_jsFunctionName)) \<longrightarrow>
      JSExecutable_init sg node =
        Inl (ConstraintLoadError
               ''At most one sh:jsFunctionName can be present on a JS Executable.''))
   \<and> (\<forall>x. set (objects sg node SH_jsFunctionName) = {x} \<and> \<not> is_Literal x \<longrightarrow>
      JSExecutable_init sg node =
        Inl (ConstraintLoadError
               ''sh:jsFunctionName must be an RDF Literal with type xsd:string.''))
   \<and> (\<forall>s x. set (objects sg node SH_jsFunctionName) = {Literal s x}
        \<and> (\<forall>l\<in>set (objects sg node SH_jsLibrary). \<not> is_Literal l
             \<and> (\<forall>u\<in>set (objects sg l SH_jsLibraryURL). is_Literal u)
             \<and> (\<forall>l2\<in>set (objects sg l SH_jsLibrary). \<not> is_Literal l2
                   \<and> (\<forall>u\<in>set (objects sg l2 SH_jsLibraryURL). is_Literal u))) \<longrightarrow>
      (\<exists>libs. JSExecutable_init sg node =
          Inr \<lparr>exe_sg = sg, exe_node = node, fn_name = s, libraries = libs\<rparr>))
   \<and> (\<forall>s x exe. set (objects sg node SH_jsFunctionName) = {Literal s x}
        \<and> JSExecutable_init sg node = Inr exe \<longrightarrow> fn_name exe = s)"
proof (intro conjI allI impI)
  assume "set (objects sg node SH_jsFunctionName) = {}"
  then show "JSExecutable_init sg node =
        Inl (ConstraintLoadError
               ''At least one sh:jsFunctionName must be present on a JS Executable.'')"
    by (simp add: JSExecutable_init_def JSExecutable_fn_name_def)
next
  assume "1 < card (set (objects sg node SH_jsFunctionName))"
  then have "1 < length (remdups (objects sg node SH_jsFunctionName))"
    by (simp add: length_remdups_card_conv)
  then show "JSExecutable_init sg node =
        Inl (ConstraintLoadError
               ''At most one sh:jsFunctionName can be present on a JS Executable.'')"
    by (auto simp: JSExecutable_init_def JSExecutable_fn_name_def Let_def)
next
  fix x
  assume "set (objects sg node SH_jsFunctionName) = {x} \<and> \<not> is_Literal x"
  then have "remdups (objects sg node SH_jsFunctionName) = [x]" and "\<not> is_Literal x"
    by (simp_all add: remdups_singleton_set)
  then show "JSExecutable_init sg node =
        Inl (ConstraintLoadError
               ''sh:jsFunctionName must be an RDF Literal with type xsd:string.'')"
    by (simp add: JSExecutable_init_def JSExecutable_fn_name_def)
next
  fix s x
  assume a: "set (objects sg node SH_jsFunctionName) = {Literal s x}
        \<and> (\<forall>l\<in>set (objects sg node SH_jsLibrary). \<not> is_Literal l
             \<and> (\<forall>u\<in>set (objects sg l SH_jsLibraryURL). is_Literal u)
             \<and> (\<forall>l2\<in>set (objects sg l SH_jsLibrary). \<not> is_Literal l2
                   \<and> (\<forall>u\<in>set (objects sg l2 SH_jsLibraryURL). is_Literal u)))"
  then have "remdups (objects sg node SH_jsFunctionName) = [Literal s x]"
    by (simp add: remdups_singleton_set)
  then have fn: "JSExecutable_fn_name sg node = Inr s"
    by (simp add: JSExecutable_fn_name_def)
  from a have "\<forall>l\<in>set (objects sg node SH_jsLibrary). \<not> is_Literal l
             \<and> (\<forall>u\<in>set (objects sg l SH_jsLibraryURL). is_Literal u)
             \<and> (\<forall>l2\<in>set (objects sg l SH_jsLibrary). \<not> is_Literal l2
                   \<and> (\<forall>u\<in>set (objects sg l2 SH_jsLibraryURL). is_Literal u))" by simp
  from library_defs_loop_ok [OF this, of "([], [])"]
  obtain seen libs where
    "library_defs_loop sg (objects sg node SH_jsLibrary) ([], []) = Inr (seen, libs)"
    by (metis surj_pair)
  with fn show "\<exists>libs. JSExecutable_init sg node =
          Inr \<lparr>exe_sg = sg, exe_node = node, fn_name = s, libraries = libs\<rparr>"
    by (simp add: JSExecutable_init_def)
next
  fix s x exe
  assume a: "set (objects sg node SH_jsFunctionName) = {Literal s x}
        \<and> JSExecutable_init sg node = Inr exe"
  then have "remdups (objects sg node SH_jsFunctionName) = [Literal s x]"
    by (simp add: remdups_singleton_set)
  then have "JSExecutable_fn_name sg node = Inr s"
    by (simp add: JSExecutable_fn_name_def)
  moreover from a have "JSExecutable_init sg node = Inr exe" by simp
  ultimately show "fn_name exe = s"
    by (auto simp: JSExecutable_init_def split: sum.splits)
qed


theorem JSExecutable_function_name_witness:
  "JSExecutable_init [] (URIRef ''N'') =
     Inl (ConstraintLoadError
            ''At least one sh:jsFunctionName must be present on a JS Executable.'')
   \<and> JSExecutable_init
        [(URIRef ''N'', SH_jsFunctionName, Literal ''f'' (StrValue ''f'')),
         (URIRef ''N'', SH_jsFunctionName, Literal ''g'' (StrValue ''g''))] (URIRef ''N'') =
     Inl (ConstraintLoadError
            ''At most one sh:jsFunctionName can be present on a JS Executable.'')
   \<and> JSExecutable_init [(URIRef ''N'', SH_jsFunctionName, URIRef ''f'')] (URIRef ''N'') =
     Inl (ConstraintLoadError
            ''sh:jsFunctionName must be an RDF Literal with type xsd:string.'')
   \<and> JSExecutable_init
        [(URIRef ''N'', SH_jsFunctionName, Literal ''f'' (StrValue ''f'')),
         (URIRef ''N'', SH_jsLibrary, URIRef ''A''),
         (URIRef ''A'', SH_jsLibraryURL, Literal ''a.js'' (StrValue ''a.js'')),
         (URIRef ''A'', SH_jsLibrary, URIRef ''B''),
         (URIRef ''B'', SH_jsLibraryURL, Literal ''b.js'' (StrValue ''b.js''))] (URIRef ''N'') =
     Inr \<lparr>exe_sg =
        [(URIRef ''N'', SH_jsFunctionName, Literal ''f'' (StrValue ''f'')),
         (URIRef ''N'', SH_jsLibrary, URIRef ''A''),
         (URIRef ''A'', SH_jsLibraryURL, Literal ''a.js'' (StrValue ''a.js'')),
         (URIRef ''A'', SH_jsLibrary, URIRef ''B''),
         (URIRef ''B'', SH_jsLibraryURL, Literal ''b.js'' (StrValue ''b.js''))],
          exe_node = URIRef ''N'', fn_name = ''f'',
          libraries = [(URIRef ''A'', [''a.js'']), (URIRef ''B'', [''b.js''])]\<rparr>"
  using
    JSExecutable_function_name [of "[]" "URIRef ''N''"]
    JSExecutable_function_name
      [of "[(URIRef ''N'', SH_jsFunctionName, Literal ''f'' (StrValue ''f'')),
         (URIRef ''N'', SH_jsFunctionName, Literal ''g'' (StrValue ''g''))]" "URIRef ''N''"]
    JSExecutable_function_name
      [of "[(URIRef ''N'', SH_jsFunctionName, URIRef ''f'')]" "URIRef ''N''"]
    JSExecutable_function_name
      [of "[(URIRef ''N'', SH_jsFunctionName, Literal ''f'' (StrValue ''f'')),
         (URIRef ''N'', SH_jsLibrary, URIRef ''A''),
         (URIRef ''A'', SH_jsLibraryURL, Literal ''a.js'' (StrValue ''a.js'')),
         (URIRef ''A'', SH_jsLibrary, URIRef ''B''),
         (URIRef ''B'', SH_jsLibraryURL, Literal ''b.js'' (StrValue ''b.js''))]" "URIRef ''N''"]
  by (simp add: JSExecutable_init_def JSExecutable_fn_name_def objects_def visit_library_def
        SH_jsFunctionName_def SH_jsLibrary_def SH_jsLibraryURL_def SH_term_def)

text \<open>
  C5. The libraries of a \<open>JSExecutable\<close>, on a node whose direct libraries are \<open>A\<close> and
  \<open>B\<close>, where \<open>A\<close> declares the library \<open>B\<close> and \<open>B\<close> declares the library \<open>C\<close>. When the
  store yields \<open>A\<close> before \<open>B\<close>, \<open>B\<close> is first visited as a library of \<open>A\<close>, the direct
  library \<open>B\<close> is then skipped as already seen, and \<open>C\<close>, a library of a direct library,
  is never collected. When the store yields \<open>B\<close> first, \<open>C\<close> is collected. In the first
  order a Literal in the place of \<open>C\<close> does not make the construction fail.
\<close>

theorem JSExecutable_nested_library_skipped:
  "JSExecutable_init
     [(URIRef ''N'', SH_jsFunctionName, Literal ''f'' (StrValue ''f'')),
      (URIRef ''N'', SH_jsLibrary, URIRef ''A''),
      (URIRef ''N'', SH_jsLibrary, URIRef ''B''),
      (URIRef ''A'', SH_jsLibrary, URIRef ''B''),
      (URIRef ''B'', SH_jsLibrary, URIRef ''C''),
      (URIRef ''A'', SH_jsLibraryURL, Literal ''a.js'' (StrValue ''a.js'')),
      (URIRef ''B'', SH_jsLibraryURL, Literal ''b.js'' (StrValue ''b.js'')),
      (URIRef ''C'', SH_jsLibraryURL, Literal ''c.js'' (StrValue ''c.js''))] (URIRef ''N'') =
   Inr \<lparr>exe_sg =
          [(URIRef ''N'', SH_jsFunctionName, Literal ''f'' (StrValue ''f'')),
           (URIRef ''N'', SH_jsLibrary, URIRef ''A''),
           (URIRef ''N'', SH_jsLibrary, URIRef ''B''),
           (URIRef ''A'', SH_jsLibrary, URIRef ''B''),
           (URIRef ''B'', SH_jsLibrary, URIRef ''C''),
           (URIRef ''A'', SH_jsLibraryURL, Literal ''a.js'' (StrValue ''a.js'')),
           (URIRef ''B'', SH_jsLibraryURL, Literal ''b.js'' (StrValue ''b.js'')),
           (URIRef ''C'', SH_jsLibraryURL, Literal ''c.js'' (StrValue ''c.js''))],
        exe_node = URIRef ''N'', fn_name = ''f'',
        libraries = [(URIRef ''A'', [''a.js'']), (URIRef ''B'', [''b.js''])]\<rparr>
   \<and> map_sum id libraries (JSExecutable_init
     [(URIRef ''N'', SH_jsFunctionName, Literal ''f'' (StrValue ''f'')),
      (URIRef ''N'', SH_jsLibrary, URIRef ''B''),
      (URIRef ''N'', SH_jsLibrary, URIRef ''A''),
      (URIRef ''A'', SH_jsLibrary, URIRef ''B''),
      (URIRef ''B'', SH_jsLibrary, URIRef ''C''),
      (URIRef ''A'', SH_jsLibraryURL, Literal ''a.js'' (StrValue ''a.js'')),
      (URIRef ''B'', SH_jsLibraryURL, Literal ''b.js'' (StrValue ''b.js'')),
      (URIRef ''C'', SH_jsLibraryURL, Literal ''c.js'' (StrValue ''c.js''))] (URIRef ''N'')) =
     Inr [(URIRef ''B'', [''b.js'']), (URIRef ''C'', [''c.js'']), (URIRef ''A'', [''a.js''])]
   \<and> map_sum id libraries (JSExecutable_init
     [(URIRef ''N'', SH_jsFunctionName, Literal ''f'' (StrValue ''f'')),
      (URIRef ''N'', SH_jsLibrary, URIRef ''A''),
      (URIRef ''N'', SH_jsLibrary, URIRef ''B''),
      (URIRef ''A'', SH_jsLibrary, URIRef ''B''),
      (URIRef ''B'', SH_jsLibrary, Literal ''c'' (StrValue ''c'')),
      (URIRef ''A'', SH_jsLibraryURL, Literal ''a.js'' (StrValue ''a.js'')),
      (URIRef ''B'', SH_jsLibraryURL, Literal ''b.js'' (StrValue ''b.js''))] (URIRef ''N'')) =
     Inr [(URIRef ''A'', [''a.js'']), (URIRef ''B'', [''b.js''])]"
  by (simp add: JSExecutable_init_def JSExecutable_fn_name_def objects_def visit_library_def
    SH_jsFunctionName_def SH_jsLibrary_def SH_jsLibraryURL_def SH_term_def)


section \<open>Properties of BoundShapeJSValidatorComponent.evaluate\<close>









section \<open>Properties of the validator cache\<close>

lemma cache_ok_empty: "cache_ok empty_state"
  by (simp add: cache_ok_def empty_state_def)

lemma new_props:
  assumes "cache_ok st" and "JSConstraintComponentValidator_new st g n = (st1, a)"
  shows "cache_ok st1"
    and "validator_cache st1 (sg_graph_id g, str_node n) = Some a"
    and "validator_cache st k = Some b \<Longrightarrow> validator_cache st1 k = Some b \<and> heap st1 b = heap st b"
    and "validator_cache st (sg_graph_id g, str_node n) = Some b \<Longrightarrow> st1 = st \<and> a = b"
    and "validator_cache st (sg_graph_id g, str_node n) = None \<Longrightarrow> a = next_addr st"
proof -
  show "cache_ok st1"
    using assms
    by (auto simp: JSConstraintComponentValidator_new_def Let_def cache_ok_def
             split: option.splits if_splits)
       (metis less_Suc_eq less_irrefl)+
  show "validator_cache st1 (sg_graph_id g, str_node n) = Some a"
    using assms(2)
    by (auto simp: JSConstraintComponentValidator_new_def Let_def split: option.splits)
  show "validator_cache st1 k = Some b \<and> heap st1 b = heap st b"
    if "validator_cache st k = Some b"
  proof -
    from assms(1) that have "b < next_addr st"
      unfolding cache_ok_def by blast
    then have "b \<noteq> next_addr st" by simp
    with assms(2) that show ?thesis
      by (auto simp: JSConstraintComponentValidator_new_def Let_def split: option.splits)
  qed
  show "st1 = st \<and> a = b" if "validator_cache st (sg_graph_id g, str_node n) = Some b"
    using assms(2) that
    by (auto simp: JSConstraintComponentValidator_new_def Let_def)
  show "a = next_addr st" if "validator_cache st (sg_graph_id g, str_node n) = None"
    using assms(2) that
    by (auto simp: JSConstraintComponentValidator_new_def Let_def)
qed

lemma init_props:
  assumes "JSConstraintComponentValidator_init st a g n = (st', r)"
  shows "validator_cache st' = validator_cache st"
    and "next_addr st' = next_addr st"
    and "b \<noteq> a \<Longrightarrow> heap st' b = heap st b"
    and "initialised (heap st a) \<Longrightarrow> st' = st \<and> r = Inr ()"
    and "r = Inr u \<Longrightarrow> initialised (heap st' a)"
  using assms
  by (auto simp: JSConstraintComponentValidator_init_def Let_def split: if_splits sum.splits)


lemma call_props:
  assumes ok: "cache_ok st" and c: "JSConstraintComponentValidator_call st g n = (st', r)"
  shows "cache_ok st'"
    and "validator_cache st k = Some b \<Longrightarrow> initialised (heap st b) \<Longrightarrow>
           validator_cache st' k = Some b \<and> heap st' b = heap st b"
    and "r = Inr a \<Longrightarrow>
           validator_cache st' (sg_graph_id g, str_node n) = Some a \<and> initialised (heap st' a)"
proof -
  obtain st1 self where n: "JSConstraintComponentValidator_new st g n = (st1, self)"
    by (cases "JSConstraintComponentValidator_new st g n")
  obtain st2 r2 where i: "JSConstraintComponentValidator_init st1 self g n = (st2, r2)"
    by (cases "JSConstraintComponentValidator_init st1 self g n")
  from c n i have st': "st' = st2" and r: "r = (case r2 of Inl e \<Rightarrow> Inl e | Inr u \<Rightarrow> Inr self)"
    by (auto simp: JSConstraintComponentValidator_call_def split: sum.splits)
  note np = new_props [OF ok n]
  note ip = init_props [OF i]
  show "cache_ok st'"
    using np(1) ip(1,2) unfolding st' cache_ok_def by simp
  show "validator_cache st' k = Some b \<and> heap st' b = heap st b"
    if k: "validator_cache st k = Some b" and b: "initialised (heap st b)"
  proof -
    from np(3) [OF k] have 1: "validator_cache st1 k = Some b" and 2: "heap st1 b = heap st b"
      by simp_all
    show ?thesis
    proof (cases "b = self")
      case True
      with b 2 have "initialised (heap st1 self)" by simp
      from ip(4) [OF this] have "st2 = st1" by simp
      with 1 2 st' show ?thesis by simp
    next
      case False
      from ip(3) [OF False] ip(1) 1 2 st' show ?thesis by simp
    qed
  qed
  show "validator_cache st' (sg_graph_id g, str_node n) = Some a \<and> initialised (heap st' a)"
    if "r = Inr a"
  proof -
    from that r obtain u where r2: "r2 = Inr u" and a: "a = self"
      by (cases r2) auto
    from ip(5) [OF r2] np(2) ip(1) a st' show ?thesis by simp
  qed
qed

lemma call_hit:
  assumes "validator_cache st (sg_graph_id g, str_node n) = Some a"
    and "initialised (heap st a)"
  shows "JSConstraintComponentValidator_call st g n = (st, Inr a)"
  using assms
  by (simp add: JSConstraintComponentValidator_call_def JSConstraintComponentValidator_new_def
        JSConstraintComponentValidator_init_def)

lemma calls_props:
  "cache_ok st \<Longrightarrow>
   cache_ok (calls st cs)
   \<and> (validator_cache st k = Some b \<longrightarrow> initialised (heap st b) \<longrightarrow>
        validator_cache (calls st cs) k = Some b \<and> heap (calls st cs) b = heap st b)"
proof (induction cs arbitrary: st)
  case Nil
  then show ?case by simp
next
  case (Cons c cs)
  obtain g n where c: "c = (g, n)" by (cases c)
  obtain st' r where call: "JSConstraintComponentValidator_call st g n = (st', r)"
    by (cases "JSConstraintComponentValidator_call st g n")
  from call_props(1) [OF Cons.prems call] have ok': "cache_ok st'" .
  note IH = Cons.IH [OF ok']
  have step: "calls st (c # cs) = calls st' cs"
    using c call by simp
  have A: "cache_ok (calls st (c # cs))"
    unfolding step using IH by simp
  have B: "validator_cache (calls st (c # cs)) k = Some b
        \<and> heap (calls st (c # cs)) b = heap st b"
    if k: "validator_cache st k = Some b" and i: "initialised (heap st b)"
  proof -
    from call_props(2) [OF Cons.prems call k i]
    have k': "validator_cache st' k = Some b" and h: "heap st' b = heap st b" by simp_all
    with i have "initialised (heap st' b)" by simp
    with IH k' h show ?thesis
      unfolding step by simp
  qed
  from A B show ?case by blast
qed

text \<open>
  C9. After any run of constructions, let the construction for \<open>(g, n)\<close> return the
  object \<open>a\<close>. Then, after any further constructions, a construction with the same key
  (a shapes graph with the same graph identity, a node with the same string) returns
  \<open>a\<close> and leaves the state as it is, so \<open>__init__\<close> has not run again: the object
  \<open>a\<close> is initialised and keeps its attributes. A construction with another graph
  identity never returns \<open>a\<close>, whatever the node.
\<close>

theorem validator_singleton_cache:
  assumes "JSConstraintComponentValidator_call (calls empty_state cs0) g n = (st1, Inr a)"
  shows "(sg_graph_id g' = sg_graph_id g \<and> str_node n' = str_node n \<longrightarrow>
            JSConstraintComponentValidator_call (calls st1 cs1) g' n' = (calls st1 cs1, Inr a))
       \<and> heap (calls st1 cs1) a = heap st1 a
       \<and> initialised (heap st1 a)
       \<and> (sg_graph_id g2 \<noteq> sg_graph_id g \<longrightarrow>
            snd (JSConstraintComponentValidator_new (calls st1 cs1) g2 n2) \<noteq> a
            \<and> snd (JSConstraintComponentValidator_call (calls st1 cs1) g2 n2) \<noteq> Inr a)"
proof -
  let ?init = "calls empty_state cs0"
  let ?cur = "calls st1 cs1"
  have ok0: "cache_ok ?init"
    using calls_props [OF cache_ok_empty] by simp
  from call_props(1) [OF ok0 assms] have ok1: "cache_ok st1" .
  from call_props(3) [OF ok0 assms refl]
  have k1: "validator_cache st1 (sg_graph_id g, str_node n) = Some a"
    and i1: "initialised (heap st1 a)" by simp_all
  from calls_props [OF ok1, of cs1 "(sg_graph_id g, str_node n)" a] k1 i1
  have k: "validator_cache ?cur (sg_graph_id g, str_node n) = Some a"
    and h: "heap ?cur a = heap st1 a" by simp_all
  from calls_props [OF ok1] have ok: "cache_ok ?cur" by simp
  have A: "JSConstraintComponentValidator_call ?cur g' n' = (?cur, Inr a)"
    if "sg_graph_id g' = sg_graph_id g \<and> str_node n' = str_node n"
    using that k h i1 by (intro call_hit) simp_all
  have B: "snd (JSConstraintComponentValidator_new ?cur g2 n2) \<noteq> a"
    if ne: "sg_graph_id g2 \<noteq> sg_graph_id g"
  proof
    assume eq: "snd (JSConstraintComponentValidator_new ?cur g2 n2) = a"
    obtain st2 b where n: "JSConstraintComponentValidator_new ?cur g2 n2 = (st2, b)"
      by (cases "JSConstraintComponentValidator_new ?cur g2 n2")
    with eq have b: "b = a" by simp
    note np = new_props [OF ok n]
    from np(3) [OF k] have "validator_cache st2 (sg_graph_id g, str_node n) = Some a" by simp
    moreover from np(2) b have "validator_cache st2 (sg_graph_id g2, str_node n2) = Some a"
      by simp
    ultimately have "(sg_graph_id g, str_node n) = (sg_graph_id g2, str_node n2)"
      using np(1) unfolding cache_ok_def by blast
    with ne show False by simp
  qed
  have C: "snd (JSConstraintComponentValidator_call ?cur g2 n2) \<noteq> Inr a"
    if ne: "sg_graph_id g2 \<noteq> sg_graph_id g"
    using B [OF ne]
    by (auto simp: JSConstraintComponentValidator_call_def split: prod.splits sum.splits)
  from A B C h i1 show ?thesis by blast
qed


theorem validator_singleton_cache_witness:
  "JSConstraintComponentValidator_call
     (fst (JSConstraintComponentValidator_call empty_state
        \<lparr>sg_graph_id = 1, sg_graph = [(URIRef ''V'', SH_jsFunctionName, Literal ''f'' (StrValue ''f''))]\<rparr> (URIRef ''V'')))
     \<lparr>sg_graph_id = 1, sg_graph = []\<rparr> (URIRef ''V'') =
   ((fst (JSConstraintComponentValidator_call empty_state
        \<lparr>sg_graph_id = 1, sg_graph = [(URIRef ''V'', SH_jsFunctionName, Literal ''f'' (StrValue ''f''))]\<rparr> (URIRef ''V''))), Inr 0)
   \<and> snd (JSConstraintComponentValidator_call
     (fst (JSConstraintComponentValidator_call empty_state
        \<lparr>sg_graph_id = 1, sg_graph = [(URIRef ''V'', SH_jsFunctionName, Literal ''f'' (StrValue ''f''))]\<rparr> (URIRef ''V'')))
     \<lparr>sg_graph_id = 2, sg_graph = [(URIRef ''V'', SH_jsFunctionName, Literal ''f'' (StrValue ''f''))]\<rparr> (URIRef ''V'')) \<noteq> Inr 0"
  using validator_singleton_cache
    [where ?cs0.0 = "[]" and g = "\<lparr>sg_graph_id = 1, sg_graph = [(URIRef ''V'', SH_jsFunctionName, Literal ''f'' (StrValue ''f''))]\<rparr>" and n = "URIRef ''V''"
       and ?st1.0 = "(fst (JSConstraintComponentValidator_call empty_state
        \<lparr>sg_graph_id = 1, sg_graph = [(URIRef ''V'', SH_jsFunctionName, Literal ''f'' (StrValue ''f''))]\<rparr> (URIRef ''V'')))"
       and a = 0 and ?cs1.0 = "[]"
       and g' = "\<lparr>sg_graph_id = 1, sg_graph = []\<rparr>" and n' = "URIRef ''V''"
       and ?g2.0 = "\<lparr>sg_graph_id = 2, sg_graph = [(URIRef ''V'', SH_jsFunctionName, Literal ''f'' (StrValue ''f''))]\<rparr>" and ?n2.0 = "URIRef ''V''"]
  by (simp add: JSConstraintComponentValidator_call_def JSConstraintComponentValidator_new_def
        JSConstraintComponentValidator_init_def JSExecutable_init_def JSExecutable_fn_name_def
        empty_state_def blank_validator_def objects_def
        SH_jsFunctionName_def SH_jsLibrary_def SH_message_def SH_term_def)

section \<open>Properties of the choice of a validator\<close>

lemma new_cache:
  "JSConstraintComponentValidator_new st g n = (st1, a) \<Longrightarrow>
   validator_cache st1 (sg_graph_id g, str_node n) = Some a"
  by (auto simp: JSConstraintComponentValidator_new_def Let_def split: option.splits)

lemma init_cache:
  "JSConstraintComponentValidator_init st a g n = (st', r) \<Longrightarrow>
   validator_cache st' = validator_cache st \<and> next_addr st' = next_addr st"
  by (auto simp: JSConstraintComponentValidator_init_def Let_def split: if_splits sum.splits)

lemma call_cache:
  assumes "JSConstraintComponentValidator_call st g n = (st', Inr a)"
  shows "validator_cache st' (sg_graph_id g, str_node n) = Some a"
proof -
  obtain st1 self where n: "JSConstraintComponentValidator_new st g n = (st1, self)"
    by (cases "JSConstraintComponentValidator_new st g n")
  obtain st2 r where i: "JSConstraintComponentValidator_init st1 self g n = (st2, r)"
    by (cases "JSConstraintComponentValidator_init st1 self g n")
  from assms n i have "st' = st2" and "a = self"
    by (auto simp: JSConstraintComponentValidator_call_def split: sum.splits)
  with new_cache [OF n] init_cache [OF i] show ?thesis by simp
qed

text \<open>
  C6. The validator of a shape is chosen by a fixed precedence: for a property shape,
  a property validator when the component has one; for a node shape, a node validator
  when the component has one; otherwise a generic validator when there is one; otherwise
  \<open>ConstraintLoadError\<close>. The order in which the validators are declared has no part in
  it. Whenever \<open>make_validator_for_shape\<close> returns a bound component, its validator is
  the cached validator object of the chosen node.
\<close>

theorem make_validator_for_shape_precedence:
  "(is_property_shape shape \<and> property_validators self \<noteq> [] \<longrightarrow>
      select_validator_node self shape = Inr (hd (property_validators self))
      \<and> hd (property_validators self) \<in> set (property_validators self))
   \<and> (\<not> is_property_shape shape \<and> node_validators self \<noteq> [] \<longrightarrow>
      select_validator_node self shape = Inr (hd (node_validators self))
      \<and> hd (node_validators self) \<in> set (node_validators self))
   \<and> ((is_property_shape shape \<longrightarrow> property_validators self = [])
       \<and> (\<not> is_property_shape shape \<longrightarrow> node_validators self = [])
       \<and> validators self \<noteq> [] \<longrightarrow>
      select_validator_node self shape = Inr (hd (validators self))
      \<and> hd (validators self) \<in> set (validators self))
   \<and> ((is_property_shape shape \<longrightarrow> property_validators self = [])
       \<and> (\<not> is_property_shape shape \<longrightarrow> node_validators self = [])
       \<and> validators self = [] \<longrightarrow>
      make_validator_for_shape next_iter st self shape =
        (st, Inl (ConstraintLoadError
                    ''Cannot select a validator to use, according to the rules.'')))
   \<and> (\<forall>st' b. make_validator_for_shape next_iter st self shape = (st', Inr b) \<longrightarrow>
        (\<exists>validator_node.
            select_validator_node self shape = Inr validator_node
            \<and> validator_cache st' (sg_graph_id (cc_sg self), str_node validator_node) =
                Some (bound_validator b)))"
proof (intro conjI allI impI)
  fix st' b
  assume m: "make_validator_for_shape next_iter st self shape = (st', Inr b)"
  then obtain vn where vn: "select_validator_node self shape = Inr vn"
    by (cases "select_validator_node self shape")
       (auto simp: make_validator_for_shape_def)
  obtain st1 r where c: "JSConstraintComponentValidator_call st (cc_sg self) vn = (st1, r)"
    by (cases "JSConstraintComponentValidator_call st (cc_sg self) vn")
  from m vn c obtain a where r: "r = Inr a" and st: "st' = st1"
    and b: "BoundShapeJSValidatorComponent_init next_iter self shape a = Inr b"
    by (cases r) (auto simp: make_validator_for_shape_def)
  from b have "bound_validator b = a"
    by (auto simp: BoundShapeJSValidatorComponent_init_def split: sum.splits)
  with call_cache [of st "cc_sg self" vn st1 a] c r st vn
  show "\<exists>validator_node.
            select_validator_node self shape = Inr validator_node
            \<and> validator_cache st' (sg_graph_id (cc_sg self), str_node validator_node) =
                Some (bound_validator b)"
    by auto
qed (auto simp: select_validator_node_def make_validator_for_shape_def)


theorem make_validator_for_shape_precedence_witness:
  "select_validator_node
     \<lparr>cc_sg = \<lparr>sg_graph_id = 1,
                    sg_graph = [(URIRef ''PV'', SH_jsFunctionName, Literal ''f'' (StrValue ''f''))]\<rparr>,
           cc_node = URIRef ''CC'', parameters = [], validators = [URIRef ''GV''],
           node_validators = [URIRef ''NV''], property_validators = [URIRef ''PV'']\<rparr>
     \<lparr>is_property_shape = True, shape_node = URIRef ''S'',
           shape_sg = \<lparr>sg_graph_id = 1, sg_graph = []\<rparr>\<rparr> = Inr (URIRef ''PV'')
   \<and> select_validator_node
     \<lparr>cc_sg = \<lparr>sg_graph_id = 1,
                    sg_graph = [(URIRef ''PV'', SH_jsFunctionName, Literal ''f'' (StrValue ''f''))]\<rparr>,
           cc_node = URIRef ''CC'', parameters = [], validators = [URIRef ''GV''],
           node_validators = [URIRef ''NV''], property_validators = [URIRef ''PV'']\<rparr>
     \<lparr>is_property_shape = False, shape_node = URIRef ''S'',
           shape_sg = \<lparr>sg_graph_id = 1, sg_graph = []\<rparr>\<rparr> = Inr (URIRef ''NV'')
   \<and> select_validator_node
     \<lparr>cc_sg = \<lparr>sg_graph_id = 1,
                    sg_graph = [(URIRef ''PV'', SH_jsFunctionName, Literal ''f'' (StrValue ''f''))]\<rparr>,
           cc_node = URIRef ''CC'', parameters = [], validators = [URIRef ''GV''],
           node_validators = [], property_validators = []\<rparr>
     \<lparr>is_property_shape = True, shape_node = URIRef ''S'',
           shape_sg = \<lparr>sg_graph_id = 1, sg_graph = []\<rparr>\<rparr> = Inr (URIRef ''GV'')
   \<and> make_validator_for_shape hd empty_state
     \<lparr>cc_sg = \<lparr>sg_graph_id = 1,
                    sg_graph = [(URIRef ''PV'', SH_jsFunctionName, Literal ''f'' (StrValue ''f''))]\<rparr>,
           cc_node = URIRef ''CC'', parameters = [], validators = [],
           node_validators = [URIRef ''NV''], property_validators = []\<rparr>
     \<lparr>is_property_shape = True, shape_node = URIRef ''S'',
           shape_sg = \<lparr>sg_graph_id = 1, sg_graph = []\<rparr>\<rparr> =
     (empty_state,
      Inl (ConstraintLoadError ''Cannot select a validator to use, according to the rules.''))
   \<and> map_sum id bound_validator (snd (make_validator_for_shape hd empty_state
     \<lparr>cc_sg = \<lparr>sg_graph_id = 1,
                    sg_graph = [(URIRef ''PV'', SH_jsFunctionName, Literal ''f'' (StrValue ''f''))]\<rparr>,
           cc_node = URIRef ''CC'', parameters = [], validators = [URIRef ''GV''],
           node_validators = [URIRef ''NV''], property_validators = [URIRef ''PV'']\<rparr>
     \<lparr>is_property_shape = True, shape_node = URIRef ''S'',
           shape_sg = \<lparr>sg_graph_id = 1, sg_graph = []\<rparr>\<rparr>)) = Inr 0
   \<and> validator_cache (fst (make_validator_for_shape hd empty_state
     \<lparr>cc_sg = \<lparr>sg_graph_id = 1,
                    sg_graph = [(URIRef ''PV'', SH_jsFunctionName, Literal ''f'' (StrValue ''f''))]\<rparr>,
           cc_node = URIRef ''CC'', parameters = [], validators = [URIRef ''GV''],
           node_validators = [URIRef ''NV''], property_validators = [URIRef ''PV'']\<rparr>
     \<lparr>is_property_shape = True, shape_node = URIRef ''S'',
           shape_sg = \<lparr>sg_graph_id = 1, sg_graph = []\<rparr>\<rparr>)) (1, ''PV'') = Some 0"
  using
    make_validator_for_shape_precedence
      [where shape = "\<lparr>is_property_shape = True, shape_node = URIRef ''S'',
           shape_sg = \<lparr>sg_graph_id = 1, sg_graph = []\<rparr>\<rparr>"
         and self = "\<lparr>cc_sg = \<lparr>sg_graph_id = 1,
                    sg_graph = [(URIRef ''PV'', SH_jsFunctionName, Literal ''f'' (StrValue ''f''))]\<rparr>,
           cc_node = URIRef ''CC'', parameters = [], validators = [URIRef ''GV''],
           node_validators = [URIRef ''NV''], property_validators = [URIRef ''PV'']\<rparr>"
         and st = empty_state and next_iter = hd]
    make_validator_for_shape_precedence
      [where shape = "\<lparr>is_property_shape = False, shape_node = URIRef ''S'',
           shape_sg = \<lparr>sg_graph_id = 1, sg_graph = []\<rparr>\<rparr>"
         and self = "\<lparr>cc_sg = \<lparr>sg_graph_id = 1,
                    sg_graph = [(URIRef ''PV'', SH_jsFunctionName, Literal ''f'' (StrValue ''f''))]\<rparr>,
           cc_node = URIRef ''CC'', parameters = [], validators = [URIRef ''GV''],
           node_validators = [URIRef ''NV''], property_validators = [URIRef ''PV'']\<rparr>"
         and st = empty_state and next_iter = hd]
    make_validator_for_shape_precedence
      [where shape = "\<lparr>is_property_shape = True, shape_node = URIRef ''S'',
           shape_sg = \<lparr>sg_graph_id = 1, sg_graph = []\<rparr>\<rparr>"
         and self = "\<lparr>cc_sg = \<lparr>sg_graph_id = 1,
                    sg_graph = [(URIRef ''PV'', SH_jsFunctionName, Literal ''f'' (StrValue ''f''))]\<rparr>,
           cc_node = URIRef ''CC'', parameters = [], validators = [URIRef ''GV''],
           node_validators = [], property_validators = []\<rparr>"
         and st = empty_state and next_iter = hd]
    make_validator_for_shape_precedence
      [where shape = "\<lparr>is_property_shape = True, shape_node = URIRef ''S'',
           shape_sg = \<lparr>sg_graph_id = 1, sg_graph = []\<rparr>\<rparr>"
         and self = "\<lparr>cc_sg = \<lparr>sg_graph_id = 1,
                    sg_graph = [(URIRef ''PV'', SH_jsFunctionName, Literal ''f'' (StrValue ''f''))]\<rparr>,
           cc_node = URIRef ''CC'', parameters = [], validators = [],
           node_validators = [URIRef ''NV''], property_validators = []\<rparr>"
         and st = empty_state and next_iter = hd]
  by (simp add: make_validator_for_shape_def select_validator_node_def
        JSConstraintComponentValidator_call_def JSConstraintComponentValidator_new_def
        JSConstraintComponentValidator_init_def JSExecutable_init_def JSExecutable_fn_name_def
        BoundShapeJSValidatorComponent_init_def bind_params_def empty_state_def
        blank_validator_def objects_def
        SH_jsFunctionName_def SH_jsLibrary_def SH_message_def SH_term_def)

section \<open>Properties of the parameter binding\<close>

lemma bind_params_loop_reserved:
  "\<exists>p\<in>set ps. localname p \<in> invalid_parameter_names \<Longrightarrow>
   \<exists>m. bind_params_loop ni shape ps bm = Inl (ReportableRuntimeError m)"
  by (induction ps arbitrary: bm) (auto simp: Let_def)

lemma bind_params_loop_mandatory:
  "\<exists>p\<in>set ps. \<not> optional p \<and> shape_objects shape (param_path p) = [] \<Longrightarrow>
   \<exists>m. bind_params_loop ni shape ps bm = Inl (ReportableRuntimeError m)"
  by (induction ps arbitrary: bm) (auto simp: Let_def)

lemma bind_params_loop_ok:
  assumes "\<forall>p\<in>set ps. localname p \<notin> invalid_parameter_names
              \<and> (shape_objects shape (param_path p) = [] \<longrightarrow> optional p)"
  shows "\<exists>bm'. bind_params_loop ni shape ps bm = Inr bm'
           \<and> (\<forall>name. map_of bm' name = None \<longleftrightarrow>
                 map_of bm name = None
                 \<and> (\<forall>p\<in>set ps. localname p = name \<longrightarrow> shape_objects shape (param_path p) = []))
           \<and> (\<forall>name v. map_of bm' name = Some v \<longrightarrow>
                 map_of bm name = Some v
                 \<or> (\<exists>p\<in>set ps. localname p = name
                       \<and> shape_objects shape (param_path p) \<noteq> []
                       \<and> v = ni (remdups (shape_objects shape (param_path p)))))"
  using assms
proof (induction ps arbitrary: bm)
  case Nil
  then show ?case by simp
next
  case (Cons p ps)
  let ?objs = "shape_objects shape (param_path p)"
  from Cons.prems have ok: "localname p \<notin> invalid_parameter_names"
    and opt: "?objs = [] \<longrightarrow> optional p"
    and rest: "\<forall>p\<in>set ps. localname p \<notin> invalid_parameter_names
              \<and> (shape_objects shape (param_path p) = [] \<longrightarrow> optional p)"
    by simp_all
  show ?case
  proof (cases "?objs = []")
    case True
    with ok opt have step: "bind_params_loop ni shape (p # ps) bm = bind_params_loop ni shape ps bm"
      by (simp add: Let_def)
    from Cons.IH [OF rest, of bm] True show ?thesis
      unfolding step by (elim exE conjE, intro exI conjI) (assumption, auto)
  next
    case False
    let ?bm = "AList.update (localname p) (ni (remdups ?objs)) bm"
    from False ok have step: "bind_params_loop ni shape (p # ps) bm = bind_params_loop ni shape ps ?bm"
      by (simp add: Let_def)
    from Cons.IH [OF rest, of ?bm] obtain bm' where
      1: "bind_params_loop ni shape ps ?bm = Inr bm'"
      and 2: "\<forall>name. map_of bm' name = None \<longleftrightarrow>
                 map_of ?bm name = None
                 \<and> (\<forall>p\<in>set ps. localname p = name \<longrightarrow> shape_objects shape (param_path p) = [])"
      and 3: "\<forall>name v. map_of bm' name = Some v \<longrightarrow>
                 map_of ?bm name = Some v
                 \<or> (\<exists>p\<in>set ps. localname p = name
                       \<and> shape_objects shape (param_path p) \<noteq> []
                       \<and> v = ni (remdups (shape_objects shape (param_path p))))"
      by blast
    have A: "\<forall>name. map_of bm' name = None \<longleftrightarrow>
                 map_of bm name = None
                 \<and> (\<forall>q\<in>set (p # ps). localname q = name \<longrightarrow> shape_objects shape (param_path q) = [])"
      using 2 False by (auto simp: update_conv')
    have B: "\<forall>name v. map_of bm' name = Some v \<longrightarrow>
                 map_of bm name = Some v
                 \<or> (\<exists>q\<in>set (p # ps). localname q = name
                       \<and> shape_objects shape (param_path q) \<noteq> []
                       \<and> v = ni (remdups (shape_objects shape (param_path q))))"
    proof (intro allI impI)
      fix name v
      assume "map_of bm' name = Some v"
      with 3 have "map_of ?bm name = Some v
                 \<or> (\<exists>p\<in>set ps. localname p = name
                       \<and> shape_objects shape (param_path p) \<noteq> []
                       \<and> v = ni (remdups (shape_objects shape (param_path p))))" by blast
      then show "map_of bm name = Some v
                 \<or> (\<exists>q\<in>set (p # ps). localname q = name
                       \<and> shape_objects shape (param_path q) \<noteq> []
                       \<and> v = ni (remdups (shape_objects shape (param_path q))))"
        using False by (auto simp: update_conv' split: if_splits)
    qed
    from 1 A B show ?thesis unfolding step by blast
  qed
qed

text \<open>
  C7. \<open>bind_params\<close> raises \<open>ReportableRuntimeError\<close> when a declared parameter has a
  reserved local name, whatever the shape holds, and when the shape has no value for a
  mandatory parameter. Otherwise it returns a binding map in which a name is absent
  exactly when the shape has no value for the parameters of that name (they are then
  optional), and in which a bound name is bound to one of the values the shape has for a
  parameter of that name.
\<close>

theorem bind_params_binding:
  assumes "\<And>xs. xs \<noteq> [] \<Longrightarrow> next_iter xs \<in> set xs"
  shows "((\<exists>p\<in>set (parameters c). localname p \<in> invalid_parameter_names) \<longrightarrow>
            (\<exists>m. bind_params next_iter c shape = Inl (ReportableRuntimeError m)))
       \<and> ((\<exists>p\<in>set (parameters c). \<not> optional p \<and> shape_objects shape (param_path p) = []) \<longrightarrow>
            (\<exists>m. bind_params next_iter c shape = Inl (ReportableRuntimeError m)))
       \<and> ((\<forall>p\<in>set (parameters c). localname p \<notin> invalid_parameter_names
              \<and> (shape_objects shape (param_path p) = [] \<longrightarrow> optional p)) \<longrightarrow>
            (\<exists>bind_map. bind_params next_iter c shape = Inr bind_map
               \<and> (\<forall>name. map_of bind_map name = None \<longleftrightarrow>
                     (\<forall>p\<in>set (parameters c). localname p = name \<longrightarrow>
                        shape_objects shape (param_path p) = []))
               \<and> (\<forall>name v. map_of bind_map name = Some v \<longrightarrow>
                     (\<exists>p\<in>set (parameters c). localname p = name
                        \<and> v \<in> set (shape_objects shape (param_path p))))))"
proof (intro conjI impI)
  assume "\<exists>p\<in>set (parameters c). localname p \<in> invalid_parameter_names"
  then show "\<exists>m. bind_params next_iter c shape = Inl (ReportableRuntimeError m)"
    unfolding bind_params_def by (rule bind_params_loop_reserved)
next
  assume "\<exists>p\<in>set (parameters c). \<not> optional p \<and> shape_objects shape (param_path p) = []"
  then show "\<exists>m. bind_params next_iter c shape = Inl (ReportableRuntimeError m)"
    unfolding bind_params_def by (rule bind_params_loop_mandatory)
next
  assume ok: "\<forall>p\<in>set (parameters c). localname p \<notin> invalid_parameter_names
              \<and> (shape_objects shape (param_path p) = [] \<longrightarrow> optional p)"
  from bind_params_loop_ok [OF ok, of next_iter "[]"] obtain bm' where
    1: "bind_params_loop next_iter shape (parameters c) [] = Inr bm'"
    and 2: "\<forall>name. map_of bm' name = None \<longleftrightarrow>
              (\<forall>p\<in>set (parameters c). localname p = name \<longrightarrow>
                 shape_objects shape (param_path p) = [])"
    and 3: "\<forall>name v. map_of bm' name = Some v \<longrightarrow>
              (\<exists>p\<in>set (parameters c). localname p = name
                 \<and> shape_objects shape (param_path p) \<noteq> []
                 \<and> v = next_iter (remdups (shape_objects shape (param_path p))))"
    by auto
  have mem: "next_iter (remdups xs) \<in> set xs" if "xs \<noteq> []" for xs
    using assms [of "remdups xs"] that by simp
  have 4: "\<forall>name v. map_of bm' name = Some v \<longrightarrow>
              (\<exists>p\<in>set (parameters c). localname p = name
                 \<and> v \<in> set (shape_objects shape (param_path p)))"
    using 3 mem by blast
  from 1 2 4 show "\<exists>bind_map. bind_params next_iter c shape = Inr bind_map
               \<and> (\<forall>name. map_of bind_map name = None \<longleftrightarrow>
                     (\<forall>p\<in>set (parameters c). localname p = name \<longrightarrow>
                        shape_objects shape (param_path p) = []))
               \<and> (\<forall>name v. map_of bind_map name = Some v \<longrightarrow>
                     (\<exists>p\<in>set (parameters c). localname p = name
                        \<and> v \<in> set (shape_objects shape (param_path p))))"
    unfolding bind_params_def by blast
qed


theorem bind_params_binding_witness:
  "bind_params hd
     \<lparr>cc_sg = \<lparr>sg_graph_id = 1, sg_graph = []\<rparr>, cc_node = URIRef ''CC'',
           parameters = [\<lparr>localname = ''value'', param_path = URIRef ''ex:value'', optional = True\<rparr>],
           validators = [], node_validators = [], property_validators = []\<rparr>
     \<lparr>is_property_shape = True, shape_node = URIRef ''S'',
           shape_sg = \<lparr>sg_graph_id = 1,
                        sg_graph = [(URIRef ''S'', URIRef ''ex:maxLength'', Literal ''5'' (StrValue ''5''))]\<rparr>\<rparr> =
     Inl (ReportableRuntimeError ''Parameter name value cannot be used.'')
   \<and> bind_params hd
     \<lparr>cc_sg = \<lparr>sg_graph_id = 1, sg_graph = []\<rparr>, cc_node = URIRef ''CC'',
           parameters = [\<lparr>localname = ''maxLength'', param_path = URIRef ''ex:maxLength'', optional = False\<rparr>,
                         \<lparr>localname = ''flags'', param_path = URIRef ''ex:flags'', optional = False\<rparr>],
           validators = [], node_validators = [], property_validators = []\<rparr>
     \<lparr>is_property_shape = True, shape_node = URIRef ''S'',
           shape_sg = \<lparr>sg_graph_id = 1,
                        sg_graph = [(URIRef ''S'', URIRef ''ex:maxLength'', Literal ''5'' (StrValue ''5''))]\<rparr>\<rparr> =
     Inl (ReportableRuntimeError ''Shape does not have mandatory parameter ex:flags.'')
   \<and> bind_params hd
     \<lparr>cc_sg = \<lparr>sg_graph_id = 1, sg_graph = []\<rparr>, cc_node = URIRef ''CC'',
           parameters = [\<lparr>localname = ''maxLength'', param_path = URIRef ''ex:maxLength'', optional = False\<rparr>,
                         \<lparr>localname = ''flags'', param_path = URIRef ''ex:flags'', optional = True\<rparr>],
           validators = [], node_validators = [], property_validators = []\<rparr>
     \<lparr>is_property_shape = True, shape_node = URIRef ''S'',
           shape_sg = \<lparr>sg_graph_id = 1,
                        sg_graph = [(URIRef ''S'', URIRef ''ex:maxLength'', Literal ''5'' (StrValue ''5''))]\<rparr>\<rparr> =
     Inr [(''maxLength'', Literal ''5'' (StrValue ''5''))]"
  using
    bind_params_binding [of hd, OF hd_in_set,
      where c = "\<lparr>cc_sg = \<lparr>sg_graph_id = 1, sg_graph = []\<rparr>, cc_node = URIRef ''CC'',
           parameters = [\<lparr>localname = ''value'', param_path = URIRef ''ex:value'', optional = True\<rparr>],
           validators = [], node_validators = [], property_validators = []\<rparr>"
        and shape = "\<lparr>is_property_shape = True, shape_node = URIRef ''S'',
           shape_sg = \<lparr>sg_graph_id = 1,
                        sg_graph = [(URIRef ''S'', URIRef ''ex:maxLength'', Literal ''5'' (StrValue ''5''))]\<rparr>\<rparr>"]
    bind_params_binding [of hd, OF hd_in_set,
      where c = "\<lparr>cc_sg = \<lparr>sg_graph_id = 1, sg_graph = []\<rparr>, cc_node = URIRef ''CC'',
           parameters = [\<lparr>localname = ''maxLength'', param_path = URIRef ''ex:maxLength'', optional = False\<rparr>,
                         \<lparr>localname = ''flags'', param_path = URIRef ''ex:flags'', optional = False\<rparr>],
           validators = [], node_validators = [], property_validators = []\<rparr>"
        and shape = "\<lparr>is_property_shape = True, shape_node = URIRef ''S'',
           shape_sg = \<lparr>sg_graph_id = 1,
                        sg_graph = [(URIRef ''S'', URIRef ''ex:maxLength'', Literal ''5'' (StrValue ''5''))]\<rparr>\<rparr>"]
    bind_params_binding [of hd, OF hd_in_set,
      where c = "\<lparr>cc_sg = \<lparr>sg_graph_id = 1, sg_graph = []\<rparr>, cc_node = URIRef ''CC'',
           parameters = [\<lparr>localname = ''maxLength'', param_path = URIRef ''ex:maxLength'', optional = False\<rparr>,
                         \<lparr>localname = ''flags'', param_path = URIRef ''ex:flags'', optional = True\<rparr>],
           validators = [], node_validators = [], property_validators = []\<rparr>"
        and shape = "\<lparr>is_property_shape = True, shape_node = URIRef ''S'',
           shape_sg = \<lparr>sg_graph_id = 1,
                        sg_graph = [(URIRef ''S'', URIRef ''ex:maxLength'', Literal ''5'' (StrValue ''5''))]\<rparr>\<rparr>"]
  by (simp add: bind_params_def invalid_parameter_names_def shape_objects_def objects_def)

section \<open>Properties of JSConstraintComponentValidator.validate\<close>

text \<open>
  C3. \<open>validate\<close> runs the script for the first value node only: every path through
  the body of its loop returns, so its result for the value nodes \<open>v # rest\<close> is its result
  for \<open>[v]\<close>. With the value nodes \<open>v1, v2\<close> and a script that returns one row with the
  value it was called on, the only violation is the one of \<open>v1\<close>. With no value node the
  function returns \<open>None\<close>. The arguments of the script are the value node and the
  binding of \<open>maxLength\<close>; without such a binding the call raises \<open>KeyError\<close>.
\<close>

theorem validate_first_value_node_only:
  "validate execute focus (v # rest) b nb = validate execute focus [v] b nb
   \<and> validate (\<lambda>args. Inr (Some [[(''value'', hd args)]])) (URIRef ''F'')
        [Literal ''v1'' (StrValue ''v1''), Literal ''v2'' (StrValue ''v2'')] [(''maxLength'', Literal ''5'' (StrValue ''5''))] None =
       Inr (Some [PTuple [PNone, PNone, PNode (Literal ''v1'' (StrValue ''v1''))]])
   \<and> validate execute focus [] b nb = Inr None
   \<and> validate execute focus [v] [] None = Inl (KeyError ''maxLength'')"
  by (simp add: validate_def row_violations_def set_add_def)

end
